theory Spec2Isabelle
  imports Complex_Main "HOL-Library.AList"
begin

section \<open>Data model of the reporter\<close>

text \<open>
  The reporter class \<open>PlaywrightTestReporter\<close> keeps a map from a string key to a test
  record, a list of setup/teardown errors, a flag for interrupted tests and, at the end of
  the run, sets the exit code of the process. The types below follow the fields the
  reporter reads and writes.
\<close>

datatype TestStatus = Passed | Failed | TimedOut | Skipped | Interrupted

text \<open>A thrown JavaScript value: an \<open>Error\<close> with its message, or any other value.\<close>

datatype exn = Error string | NonError string

record JsError =
  err_message :: string
  err_stack :: "string option"

text \<open>The runner's \<open>TestError\<close>: both fields may be undefined.\<close>

record TestError =
  e_message :: "string option"
  e_stack :: "string option"

record Location =
  loc_file :: string
  loc_line :: int
  loc_column :: int

text \<open>
  The runner's \<open>TestCase\<close>. \<open>tc_suitePath\<close> lists the titles of the enclosing suites,
  outermost first; \<open>test.parent\<close> is the innermost of them.
\<close>

record TestCase =
  tc_id :: string
  tc_title :: string
  tc_suitePath :: "string list"
  tc_location :: "Location option"
  tc_outcome :: string

record TestResult =
  r_status :: TestStatus
  r_duration :: rat
  r_errors :: "TestError list"
  r_retry :: nat

record TestCaseDetails =
  d_testId :: string
  d_testTitle :: string
  d_suiteTitle :: string
  d_testFile :: "string option"
  d_location :: "Location option"
  d_outcome :: string
  d_status :: string
  d_owningTeam :: string

record AttemptError =
  ae_message :: string
  ae_stack :: "string option"

record Attempt =
  a_status :: TestStatus
  a_duration :: rat
  a_errors :: "AttemptError list"

record TestRecord =
  test :: TestCaseDetails
  attempts :: "Attempt list"

record TestFailure =
  f_testId :: string
  f_testTitle :: string
  f_suiteTitle :: string
  f_errorMessage :: string
  f_errorStack :: string
  f_duration :: rat
  f_owningTeam :: string
  f_isTimeout :: bool
  f_errorCategory :: string
  f_testFile :: "string option"
  f_location :: "Location option"

text \<open>What \<open>TestUtils.processTestResults\<close> hands back to \<open>onEnd\<close>. The counts are counts.\<close>

record Processed =
  p_passedCount :: nat
  p_testCount :: nat
  p_skippedCount :: nat
  p_failures :: "TestFailure list"
  p_passedDurations :: "rat list"

text \<open>
  The helpers of \<open>TestUtils\<close> that the reporter calls. Their code is not part of the
  reporter class; they are parameters of the model, each a function of its arguments.
\<close>

record TestUtils =
  outcomeToStatus :: "string \<Rightarrow> string"
  getOwningTeam :: "TestCase \<Rightarrow> string"
  categorizeError :: "string \<Rightarrow> string"
  processTestResults :: "(string \<times> TestRecord) list \<Rightarrow> Processed"
  calculateAverageTime :: "rat list \<Rightarrow> rat"
  findSlowestTests :: "(string \<times> TestRecord) list \<Rightarrow> nat \<Rightarrow> (string \<times> rat) list"
  formatTime :: "rat \<Rightarrow> string"

subsection \<open>JavaScript idioms\<close>

text \<open>\<open>s || d\<close> on an optional string: undefined and the empty string are both falsy.\<close>

definition or_default :: "string option \<Rightarrow> string \<Rightarrow> string" where
  "or_default v d = (case v of None \<Rightarrow> d | Some s \<Rightarrow> if s = [] then d else s)"

text \<open>\<open>test.parent?.title\<close>\<close>

definition parent_title :: "TestCase \<Rightarrow> string option" where
  "parent_title tc = (if tc_suitePath tc = [] then None else Some (last (tc_suitePath tc)))"

text \<open>\<open>result.errors[0]?.message\<close> and \<open>result.errors[0]?.stack\<close>\<close>

definition first_message :: "TestError list \<Rightarrow> string option" where
  "first_message es = (case es of [] \<Rightarrow> None | e # _ \<Rightarrow> e_message e)"

definition first_stack :: "TestError list \<Rightarrow> string option" where
  "first_stack es = (case es of [] \<Rightarrow> None | e # _ \<Rightarrow> e_stack e)"

subsection \<open>The record store: a JavaScript \<open>Map\<close> in insertion order\<close>

type_synonym store = "(string \<times> TestRecord) list"

definition Map_has :: "store \<Rightarrow> string \<Rightarrow> bool" where
  "Map_has m k = (k \<in> set (map fst m))"

definition Map_get :: "store \<Rightarrow> string \<Rightarrow> TestRecord option" where
  "Map_get m k = map_of m k"

text \<open>\<open>Map.set\<close> keeps the position of a key that is present and appends a new one.\<close>

fun Map_set :: "store \<Rightarrow> string \<Rightarrow> TestRecord \<Rightarrow> store" where
  "Map_set [] k v = [(k, v)]"
| "Map_set (p # ps) k v = (if fst p = k then (k, v) # ps else p # Map_set ps k v)"

section \<open>Collaborators and their payloads\<close>

datatype BugPriority = Critical | High | Medium | Low

record BugDetails =
  bug_title :: string
  bug_description :: string
  bug_priority :: BugPriority
  bug_labels :: "string list"
  bug_assignee :: string
  bug_testFailure :: TestFailure

record BugInfo =
  bi_id :: string
  bi_url :: string
  bi_status :: string

datatype FileAction = Add | Modify | Delete

record FileChange =
  fc_path :: string
  fc_content :: string
  fc_action :: FileAction

record PROptions =
  pr_sourceBranch :: string
  pr_targetBranch :: string
  pr_title :: string
  pr_description :: string
  pr_labels :: "string list"
  pr_draft :: bool

record PRInfo =
  pi_number :: int
  pi_url :: string

record BuildInfo =
  buildBranch :: "string option"
  commitId :: "string option"

record TestSummary =
  s_failures :: "TestFailure list"
  s_testCount :: nat
  s_passedCount :: nat
  s_skippedCount :: nat
  s_failedCount :: int
  s_totalTimeDisplay :: string
  s_averageTime :: rat
  s_slowestTest :: rat
  s_slowestTests :: "(string \<times> rat) list"
  s_buildInfo :: BuildInfo

text \<open>
  The rows handed to the database. Of the run row the name, the two time stamps and the
  metadata are left out, of a result row the time stamp: they are clock readings and
  copies of the build information.
\<close>

record TestRun =
  run_environment :: string
  run_branch :: "string option"
  run_commitHash :: "string option"
  run_totalTests :: nat
  run_passedTests :: nat
  run_failedTests :: int
  run_skippedTests :: nat

record DbTestResult =
  db_testRunId :: string
  db_testId :: string
  db_testTitle :: string
  db_suiteTitle :: string
  db_status :: string
  db_duration :: rat
  db_errorMessage :: "string option"
  db_errorStack :: "string option"

datatype NotificationSeverity = Info | Warning | SevError | SevCritical

record NotificationOptions =
  n_recipients :: "string list"
  n_severity :: NotificationSeverity
  n_subject :: string

record NotificationResult =
  nr_success :: bool

record LastRunData =
  l_status :: string
  l_failedTests :: "string list"

text \<open>
  What the reporter asks of the objects around it is recorded as a list of actions, in the
  order of the calls; each action is one call, with the arguments the reporter passes.
  Console output is left out, except the notice that no tests were found. The calls of the
  file system are named after their place: \<open>ReadFile\<close> reads the source of a failing
  test, \<open>ReadFix\<close> reads a fix artifact back, \<open>MkDir\<close> makes an artifact directory,
  \<open>MkOutputDir\<close> makes the output directory. What the file system and the other
  collaborators answer is a parameter of the model and does not depend on earlier calls.
\<close>

datatype action =
    AddFailure TestFailure
  | NoTestsFound
  | MkDir string
  | ReadFile string
  | ReadFix string
  | WriteFile string string
  | GetAIProvider
  | GenerateCompletion string
  | GetPRProvider
  | CreateBranch string string
  | CommitChanges string "FileChange list" string
  | CreatePullRequest PROptions
  | GetBugTrackerProvider
  | CreateBug BugDetails
  | WriteSummary TestSummary "TestCaseDetails list"
  | GetDatabaseProvider
  | DbInitialize
  | SaveTestRun TestRun
  | SaveTestResult DbTestResult
  | GetNotificationProvider
  | SendTestSummary TestSummary NotificationOptions
  | SendTestFailures "TestFailure list" NotificationOptions
  | MkOutputDir string
  | WriteLastRun string LastRunData

text \<open>
  The outcome of each call is a parameter: a collaborator either returns a value or throws.
  The registry's getters throw when a provider is not configured or cannot be built.
  \<open>writeSummary\<close> is the method of the file handler; \<open>onEnd\<close> calls it outside any
  \<open>try\<close> block.
\<close>

record FileSystem =
  existsSync :: "string \<Rightarrow> bool"
  mkdirSync :: "string \<Rightarrow> exn + unit"
  readFileSync :: "string \<Rightarrow> exn + string"
  writeFileSync :: "string \<Rightarrow> exn + unit"
  writeSummary :: "TestSummary \<Rightarrow> TestCaseDetails list \<Rightarrow> exn + unit"

record AIProvider =
  getAIProvider :: "exn + unit"
  generateCompletion :: "string \<Rightarrow> exn + string"

record PRProvider =
  getPRProvider :: "exn + unit"
  createBranch :: "string \<Rightarrow> string \<Rightarrow> exn + bool"
  commitChanges :: "string \<Rightarrow> FileChange list \<Rightarrow> string \<Rightarrow> exn + string option"
  createPullRequest :: "PROptions \<Rightarrow> exn + PRInfo option"

record BugTrackerProvider =
  getBugTrackerProvider :: "exn + unit"
  createBug :: "BugDetails \<Rightarrow> exn + BugInfo option"

record DatabaseProvider =
  getDatabaseProvider :: "exn + unit"
  dbInitialize :: "exn + unit"
  saveTestRun :: "TestRun \<Rightarrow> exn + string"
  saveTestResult :: "DbTestResult \<Rightarrow> exn + string"

record NotificationProvider =
  getNotificationProvider :: "exn + unit"
  sendTestSummary :: "TestSummary \<Rightarrow> NotificationOptions \<Rightarrow> exn + NotificationResult"
  sendTestFailures :: "TestFailure list \<Rightarrow> NotificationOptions \<Rightarrow> exn + NotificationResult"

record Collaborators =
  fileSystem :: FileSystem
  aiProvider :: AIProvider
  prProvider :: PRProvider
  bugTracker :: BugTrackerProvider
  database :: DatabaseProvider
  notifier :: NotificationProvider

text \<open>
  The environment variables the reporter reads, the clock, the build information, and the
  text templates (prompt, paths of the artifacts, commit message, descriptions), which are
  string interpolations of the failure and are not spelled out.
\<close>

record Env =
  DATABASE_PROVIDER :: "string option"
  NOTIFICATION_PROVIDER :: "string option"
  EMAIL_RECIPIENTS :: "string option"
  BASE_BRANCH :: "string option"
  GITHUB_BASE_REF :: "string option"
  NODE_ENV :: "string option"
  nowISOString :: string
  dateNow :: string
  totalTimeSec :: rat
  getBuildInfo :: BuildInfo

record Templates =
  promptDir :: string
  fixesDir :: string
  promptPath :: "TestFailure \<Rightarrow> string"
  fixPath :: "TestFailure \<Rightarrow> string"
  promptContent :: "TestFailure \<Rightarrow> string \<Rightarrow> string"
  commitMessage :: "TestFailure \<Rightarrow> string"
  prTitle :: "TestFailure \<Rightarrow> string"
  prDescription :: "TestFailure \<Rightarrow> string \<Rightarrow> string"
  bugDescription :: "TestFailure \<Rightarrow> string"
  lastRunPath :: "string \<Rightarrow> string"
  summarySubject :: "TestSummary \<Rightarrow> string"
  failuresSubject :: "TestFailure list \<Rightarrow> string"

text \<open>
  The configuration of the reporter. \<open>createBug_enabled\<close> is its toggle \<open>createBug\<close>,
  renamed because the call of the bug tracker has that name.
\<close>

record ReporterConfig =
  maxSlowTestsToShow :: nat
  outputDir :: string
  generateFix :: bool
  createBug_enabled :: bool
  generatePR :: bool
  publishToDB :: bool
  sendEmail :: bool

section \<open>Event ingestion\<close>

record Reporter =
  testRecords :: store
  nonTestErrors :: "JsError list"
  hasInterruptedTests :: bool

definition initial :: Reporter where
  "initial = \<lparr>testRecords = [], nonTestErrors = [], hasInterruptedTests = False\<rparr>"

definition onError :: "JsError \<Rightarrow> Reporter \<Rightarrow> Reporter" where
  "onError error st = st\<lparr>nonTestErrors := nonTestErrors st @ [error]\<rparr>"

definition testCaseDetails :: "TestUtils \<Rightarrow> TestCase \<Rightarrow> TestCaseDetails" where
  "testCaseDetails u t =
     \<lparr>d_testId = tc_id t,
      d_testTitle = tc_title t,
      d_suiteTitle = or_default (parent_title t) ''Unknown Suite'',
      d_testFile = map_option loc_file (tc_location t),
      d_location = tc_location t,
      d_outcome = tc_outcome t,
      d_status = outcomeToStatus u (tc_outcome t),
      d_owningTeam = getOwningTeam u t\<rparr>"

definition attempt_of :: "TestResult \<Rightarrow> Attempt" where
  "attempt_of result =
     \<lparr>a_status = r_status result,
      a_duration = r_duration result / 1000,
      a_errors = map (\<lambda>e. \<lparr>ae_message = or_default (e_message e) ''No error message'',
                             ae_stack = e_stack e\<rparr>) (r_errors result)\<rparr>"

definition attempt_failure :: "TestUtils \<Rightarrow> TestCase \<Rightarrow> TestResult \<Rightarrow> TestFailure" where
  "attempt_failure u t result =
     (let errorMessage = or_default (first_message (r_errors result)) ''Unknown error''
      in \<lparr>f_testId = tc_id t,
          f_testTitle = tc_title t,
          f_suiteTitle = or_default (parent_title t) ''Unknown Suite'',
          f_errorMessage = errorMessage,
          f_errorStack = or_default (first_stack (r_errors result)) '''',
          f_duration = r_duration result / 1000,
          f_owningTeam = getOwningTeam u t,
          f_isTimeout = (r_status result = TimedOut),
          f_errorCategory = categorizeError u errorMessage,
          f_testFile = map_option loc_file (tc_location t),
          f_location = tc_location t\<rparr>)"

text \<open>
  \<open>onTestEnd\<close>: the key of the store is \<open>test.title\<close>. The record is created when the
  key is absent, and the attempt is pushed onto the record found under the key.
\<close>

definition onTestEnd :: "TestUtils \<Rightarrow> TestCase \<Rightarrow> TestResult \<Rightarrow> Reporter \<Rightarrow> action list \<times> Reporter" where
  "onTestEnd u t result st =
     (let title = tc_title t;
          m1 = (if \<not> Map_has (testRecords st) title
                then Map_set (testRecords st) title \<lparr>test = testCaseDetails u t, attempts = []\<rparr>
                else testRecords st);
          m2 = (case Map_get m1 title of
                  None \<Rightarrow> m1
                | Some testRecord \<Rightarrow>
                    Map_set m1 title (testRecord\<lparr>attempts := attempts testRecord @ [attempt_of result]\<rparr>));
          acts = (if r_status result = Failed \<or> r_status result = TimedOut
                  then [AddFailure (attempt_failure u t result)] else []);
          interrupted = (if r_status result = Interrupted then True else hasInterruptedTests st)
      in (acts, st\<lparr>testRecords := m2, hasInterruptedTests := interrupted\<rparr>))"

text \<open>The events of a run before \<open>onEnd\<close>, delivered one at a time.\<close>

datatype event = TestEnd TestCase TestResult | SetupError JsError

fun deliver :: "TestUtils \<Rightarrow> event \<Rightarrow> action list \<times> Reporter \<Rightarrow> action list \<times> Reporter" where
  "deliver u (TestEnd t result) (tr, st) = (let (acts, st') = onTestEnd u t result st in (tr @ acts, st'))"
| "deliver u (SetupError e) (tr, st) = (tr, onError e st)"

definition collect :: "TestUtils \<Rightarrow> event list \<Rightarrow> action list \<times> Reporter" where
  "collect u evs = foldl (\<lambda>s e. deliver u e s) ([], initial) evs"

section \<open>Programs with effects\<close>

text \<open>
  A program of \<open>onEnd\<close> reads and writes the source-code cache of the fix channel and
  the exit code of the process, makes calls (recorded in order), and returns a value or
  throws. \<open>try_catch\<close> is \<open>try { ... } catch (error) { ... }\<close>.
\<close>

record world =
  sourceCodeCache :: "(string \<times> string) list"
  exitCode :: "int option"

type_synonym 'a io = "world \<Rightarrow> action list \<times> world \<times> (exn + 'a)"

definition return_io :: "'a \<Rightarrow> 'a io" where
  "return_io x = (\<lambda>w. ([], w, Inr x))"

definition bind_io :: "'a io \<Rightarrow> ('a \<Rightarrow> 'b io) \<Rightarrow> 'b io" where
  "bind_io m f = (\<lambda>w. case m w of
       (tr, w', Inl e) \<Rightarrow> (tr, w', Inl e)
     | (tr, w', Inr x) \<Rightarrow> (case f x w' of (tr', w'', r) \<Rightarrow> (tr @ tr', w'', r)))"

definition try_catch :: "'a io \<Rightarrow> (exn \<Rightarrow> 'a io) \<Rightarrow> 'a io" where
  "try_catch m h = (\<lambda>w. case m w of
       (tr, w', Inl e) \<Rightarrow> (case h e w' of (tr', w'', r) \<Rightarrow> (tr @ tr', w'', r))
     | (tr, w', Inr x) \<Rightarrow> (tr, w', Inr x))"

text \<open>A call: the action is recorded, then the collaborator returns or throws.\<close>

definition call :: "action \<Rightarrow> exn + 'a \<Rightarrow> 'a io" where
  "call a outcome = (\<lambda>w. ([a], w, outcome))"

text \<open>\<open>for (const x of xs) { ... }\<close>: an exception that leaves the body leaves the loop.\<close>

fun for_each :: "'a list \<Rightarrow> ('a \<Rightarrow> unit io) \<Rightarrow> unit io" where
  "for_each [] body = return_io ()"
| "for_each (x # xs) body = bind_io (body x) (\<lambda>_. for_each xs body)"

definition cache_has :: "string \<Rightarrow> bool io" where
  "cache_has k = (\<lambda>w. ([], w, Inr (k \<in> set (map fst (sourceCodeCache w)))))"

definition cache_get :: "string \<Rightarrow> string option io" where
  "cache_get k = (\<lambda>w. ([], w, Inr (map_of (sourceCodeCache w) k)))"

definition cache_set :: "string \<Rightarrow> string \<Rightarrow> unit io" where
  "cache_set k v = (\<lambda>w. ([], w\<lparr>sourceCodeCache := AList.update k v (sourceCodeCache w)\<rparr>, Inr ()))"

definition cache_new :: "unit io" where
  "cache_new = (\<lambda>w. ([], w\<lparr>sourceCodeCache := []\<rparr>, Inr ()))"

definition exitWithSuccess :: "unit io" where
  "exitWithSuccess = (\<lambda>w. ([], w\<lparr>exitCode := Some 0\<rparr>, Inr ()))"

definition exitWithError :: "unit io" where
  "exitWithError = (\<lambda>w. ([], w\<lparr>exitCode := Some 1\<rparr>, Inr ()))"

text \<open>\<open>!s\<close> on an optional string.\<close>

definition falsy :: "string option \<Rightarrow> bool" where
  "falsy v = (v = None \<or> v = Some [])"

section \<open>The fix-suggestion channel and the nested pull-request automation\<close>

text \<open>
  \<open>GenAIUtils.callGenAISuggestion\<close>: an error of the AI provider is caught and turned
  into the text that is returned.
\<close>

definition callGenAISuggestion :: "Collaborators \<Rightarrow> string \<Rightarrow> string io" where
  "callGenAISuggestion c prompt =
     try_catch
       (bind_io (call GetAIProvider (getAIProvider (aiProvider c))) (\<lambda>provider.
        call (GenerateCompletion prompt) (generateCompletion (aiProvider c) prompt)))
       (\<lambda>error. return_io (''Error retrieving suggestion from AI provider: '' @
            (case error of Error m \<Rightarrow> m | NonError _ \<Rightarrow> ''Unknown error'')))"

text \<open>\<open>GenAIUtils.generateFixSuggestion\<close>: the paths of the two artifacts, or null.\<close>

definition generateFixSuggestion ::
  "Collaborators \<Rightarrow> Templates \<Rightarrow> TestFailure \<Rightarrow> (string \<times> string) option io" where
  "generateFixSuggestion c tpl failure =
     (case f_testFile failure of
        None \<Rightarrow> return_io None
      | Some testFile \<Rightarrow>
          if testFile = [] then return_io None
          else
            try_catch
              (bind_io (call (MkDir (promptDir tpl)) (mkdirSync (fileSystem c) (promptDir tpl))) (\<lambda>_.
               bind_io (call (MkDir (fixesDir tpl)) (mkdirSync (fileSystem c) (fixesDir tpl))) (\<lambda>_.
               bind_io (cache_get testFile) (\<lambda>cached.
               bind_io (if falsy cached
                        then bind_io (call (ReadFile testFile) (readFileSync (fileSystem c) testFile)) (\<lambda>source.
                             bind_io (cache_set testFile source) (\<lambda>_. return_io source))
                        else return_io (the cached)) (\<lambda>source.
               bind_io (call (WriteFile (promptPath tpl failure) (promptContent tpl failure source))
                             (writeFileSync (fileSystem c) (promptPath tpl failure))) (\<lambda>_.
               bind_io (callGenAISuggestion c (promptContent tpl failure source)) (\<lambda>suggestion.
               bind_io (call (WriteFile (fixPath tpl failure) suggestion)
                             (writeFileSync (fileSystem c) (fixPath tpl failure))) (\<lambda>_.
               return_io (Some (promptPath tpl failure, fixPath tpl failure))))))))))
              (\<lambda>error. return_io None))"

text \<open>
  The branch name: the title with every character outside a-z, A-Z, 0-9 replaced by a
  dash, in lower case, and the ISO time with colons and dots replaced and its last five
  characters cut. Strings are lists of 8-bit characters here; \<open>toLowerCase\<close> maps the
  letters A-Z and leaves every other character as it is.
\<close>

definition is_alnum :: "char \<Rightarrow> bool" where
  "is_alnum ch = (let n = (of_char ch :: nat) in
     (97 \<le> n \<and> n \<le> 122) \<or> (65 \<le> n \<and> n \<le> 90) \<or> (48 \<le> n \<and> n \<le> 57))"

definition lower_char :: "char \<Rightarrow> char" where
  "lower_char ch = (let n = (of_char ch :: nat) in if 65 \<le> n \<and> n \<le> 90 then char_of (n + 32) else ch)"

definition toLowerCase :: "string \<Rightarrow> string" where
  "toLowerCase s = map lower_char s"

definition sanitizedTestTitle :: "TestFailure \<Rightarrow> string" where
  "sanitizedTestTitle failure =
     toLowerCase (map (\<lambda>ch. if is_alnum ch then ch else CHR ''-'') (f_testTitle failure))"

definition timestamp :: "Env \<Rightarrow> string" where
  "timestamp env =
     (let replaced = map (\<lambda>ch. if ch = CHR '':'' \<or> ch = CHR ''.'' then CHR ''-'' else ch) (nowISOString env)
      in take (length replaced - 5) replaced)"

definition branchName :: "Env \<Rightarrow> TestFailure \<Rightarrow> string" where
  "branchName env failure = ''autofix/'' @ sanitizedTestTitle failure @ ''-'' @ timestamp env"

definition baseBranch :: "Env \<Rightarrow> string" where
  "baseBranch env =
     (if \<not> falsy (BASE_BRANCH env) then the (BASE_BRANCH env)
      else if \<not> falsy (GITHUB_BASE_REF env) then the (GITHUB_BASE_REF env)
      else ''main'')"

definition prOptions :: "Env \<Rightarrow> Templates \<Rightarrow> TestFailure \<Rightarrow> string \<Rightarrow> PROptions" where
  "prOptions env tpl failure commitHash =
     \<lparr>pr_sourceBranch = branchName env failure,
      pr_targetBranch = baseBranch env,
      pr_title = prTitle tpl failure,
      pr_description = prDescription tpl failure commitHash,
      pr_labels = [''auto-fix'', ''test-failure'', ''ai-generated''],
      pr_draft = True\<rparr>"

definition generatePullRequest ::
  "Collaborators \<Rightarrow> Env \<Rightarrow> Templates \<Rightarrow> TestFailure \<Rightarrow> string \<times> string \<Rightarrow> unit io" where
  "generatePullRequest c env tpl failure fixResult =
     try_catch
       (bind_io (call GetPRProvider (getPRProvider (prProvider c))) (\<lambda>provider.
        bind_io (call (ReadFix (snd fixResult)) (readFileSync (fileSystem c) (snd fixResult))) (\<lambda>fixContent.
        if falsy (f_testFile failure) then return_io ()
        else
          bind_io (call (CreateBranch (branchName env failure) (baseBranch env))
                        (createBranch (prProvider c) (branchName env failure) (baseBranch env))) (\<lambda>branchCreated.
          if \<not> branchCreated then return_io ()
          else
            let fileChanges = [\<lparr>fc_path = the (f_testFile failure), fc_content = fixContent, fc_action = Modify\<rparr>]
            in
            bind_io (call (CommitChanges (branchName env failure) fileChanges (commitMessage tpl failure))
                          (commitChanges (prProvider c) (branchName env failure) fileChanges (commitMessage tpl failure)))
              (\<lambda>commitHash.
            if falsy commitHash then return_io ()
            else
              bind_io (call (CreatePullRequest (prOptions env tpl failure (the commitHash)))
                            (createPullRequest (prProvider c) (prOptions env tpl failure (the commitHash))))
                (\<lambda>prInfo. return_io ()))))))
       (\<lambda>error. return_io ())"

text \<open>One turn of the loop of \<open>_generateFixSuggestions\<close>.\<close>

definition fixOneFailure ::
  "ReporterConfig \<Rightarrow> Collaborators \<Rightarrow> Env \<Rightarrow> Templates \<Rightarrow> TestFailure \<Rightarrow> unit io" where
  "fixOneFailure cfg c env tpl failure =
     (if falsy (f_testFile failure) then return_io ()
      else
        try_catch
          (bind_io (cache_has (the (f_testFile failure))) (\<lambda>has.
           bind_io (if \<not> has
                    then bind_io (call (ReadFile (the (f_testFile failure)))
                                       (readFileSync (fileSystem c) (the (f_testFile failure)))) (\<lambda>source.
                         cache_set (the (f_testFile failure)) source)
                    else return_io ()) (\<lambda>_.
           bind_io (generateFixSuggestion c tpl failure) (\<lambda>result.
           case result of
             Some fixResult \<Rightarrow>
               if generatePR cfg then generatePullRequest c env tpl failure fixResult
               else return_io ()
           | None \<Rightarrow> return_io ()))))
          (\<lambda>error. return_io ()))"

definition generateFixSuggestions ::
  "ReporterConfig \<Rightarrow> Collaborators \<Rightarrow> Env \<Rightarrow> Templates \<Rightarrow> TestFailure list \<Rightarrow> unit io" where
  "generateFixSuggestions cfg c env tpl failures =
     bind_io cache_new (\<lambda>_. for_each failures (fixOneFailure cfg c env tpl))"

section \<open>The bug-filing channel\<close>

definition bugDetails :: "Templates \<Rightarrow> TestFailure \<Rightarrow> BugDetails" where
  "bugDetails tpl failure =
     \<lparr>bug_title = ''[Test Failure] '' @ f_testTitle failure,
      bug_description = bugDescription tpl failure,
      bug_priority = (if f_isTimeout failure then High else Medium),
      bug_labels = [''test-failure'', ''automated'', toLowerCase (f_errorCategory failure)],
      bug_assignee = f_owningTeam failure,
      bug_testFailure = failure\<rparr>"

definition createBugsForFailures :: "Collaborators \<Rightarrow> Templates \<Rightarrow> TestFailure list \<Rightarrow> unit io" where
  "createBugsForFailures c tpl failures =
     try_catch
       (bind_io (call GetBugTrackerProvider (getBugTrackerProvider (bugTracker c))) (\<lambda>tracker.
        for_each failures (\<lambda>failure.
          try_catch
            (bind_io (call (CreateBug (bugDetails tpl failure)) (createBug (bugTracker c) (bugDetails tpl failure)))
               (\<lambda>bugInfo. return_io ()))
            (\<lambda>error. return_io ()))))
       (\<lambda>error. return_io ())"

section \<open>The database channel\<close>

definition testRun :: "Env \<Rightarrow> TestSummary \<Rightarrow> TestRun" where
  "testRun env summary =
     \<lparr>run_environment = or_default (NODE_ENV env) ''test'',
      run_branch = buildBranch (s_buildInfo summary),
      run_commitHash = commitId (s_buildInfo summary),
      run_totalTests = s_testCount summary,
      run_passedTests = s_passedCount summary,
      run_failedTests = s_failedCount summary,
      run_skippedTests = s_skippedCount summary\<rparr>"

text \<open>
  The result row of a test case. The details that \<open>onTestEnd\<close> builds carry no duration,
  so \<open>testCase.duration || 0\<close> is 0; the failure is the first of the list with the title
  of the test case.
\<close>

definition dbTestResult :: "Env \<Rightarrow> string \<Rightarrow> TestFailure list \<Rightarrow> TestCaseDetails \<Rightarrow> DbTestResult" where
  "dbTestResult env testRunId failures testCase =
     (let failure = find (\<lambda>f. f_testTitle f = d_testTitle testCase) failures
      in \<lparr>db_testRunId = testRunId,
          db_testId = (if d_testId testCase = [] then ''test-'' @ dateNow env else d_testId testCase),
          db_testTitle = d_testTitle testCase,
          db_suiteTitle = d_suiteTitle testCase,
          db_status = (if d_status testCase = [] then ''unknown'' else d_status testCase),
          db_duration = 0,
          db_errorMessage = map_option f_errorMessage failure,
          db_errorStack = map_option f_errorStack failure\<rparr>)"

definition publishToDatabase ::
  "Collaborators \<Rightarrow> Env \<Rightarrow> TestSummary \<Rightarrow> TestCaseDetails list \<Rightarrow> TestFailure list \<Rightarrow> unit io" where
  "publishToDatabase c env summary allTestCases failures =
     try_catch
       (if falsy (DATABASE_PROVIDER env) then return_io ()
        else
          bind_io (call GetDatabaseProvider (getDatabaseProvider (database c))) (\<lambda>dbProvider.
          bind_io (call DbInitialize (dbInitialize (database c))) (\<lambda>_.
          bind_io (call (SaveTestRun (testRun env summary)) (saveTestRun (database c) (testRun env summary))) (\<lambda>testRunId.
          for_each allTestCases (\<lambda>testCase.
            bind_io (call (SaveTestResult (dbTestResult env testRunId failures testCase))
                          (saveTestResult (database c) (dbTestResult env testRunId failures testCase)))
              (\<lambda>_. return_io ()))))))
       (\<lambda>error. return_io ())"

section \<open>The notification channel\<close>

text \<open>\<open>s.split(',')\<close> and \<open>r.trim()\<close>, the latter on the ASCII white space.\<close>

fun split_comma :: "string \<Rightarrow> string list" where
  "split_comma [] = [[]]"
| "split_comma (ch # cs) =
     (if ch = CHR '','' then [] # split_comma cs
      else (case split_comma cs of [] \<Rightarrow> [[ch]] | w # ws \<Rightarrow> (ch # w) # ws))"

definition is_space :: "char \<Rightarrow> bool" where
  "is_space ch = (let n = (of_char ch :: nat) in n = 32 \<or> (9 \<le> n \<and> n \<le> 13))"

definition trim :: "string \<Rightarrow> string" where
  "trim s = rev (dropWhile is_space (rev (dropWhile is_space s)))"

definition recipients :: "Env \<Rightarrow> string list" where
  "recipients env = (case EMAIL_RECIPIENTS env of None \<Rightarrow> [] | Some s \<Rightarrow> map trim (split_comma s))"

text \<open>
  \<open>summary.skippedCount > summary.testCount * 0.2\<close> compares a count with a fifth of a
  count. Over the rationals, which is what the comparison of the two doubles decides for
  counts below \<open>2^53\<close>.
\<close>

definition severity :: "TestSummary \<Rightarrow> NotificationSeverity" where
  "severity summary =
     (if s_failedCount summary > 0 then SevError
      else if (of_nat (s_skippedCount summary) :: rat) > of_nat (s_testCount summary) * (2 / 10) then Warning
      else Info)"

definition sendEmailNotification ::
  "Collaborators \<Rightarrow> Env \<Rightarrow> Templates \<Rightarrow> TestSummary \<Rightarrow> TestFailure list \<Rightarrow> unit io" where
  "sendEmailNotification c env tpl summary failures =
     try_catch
       (if falsy (NOTIFICATION_PROVIDER env) then return_io ()
        else
          bind_io (call GetNotificationProvider (getNotificationProvider (notifier c))) (\<lambda>notificationProvider.
          if recipients env = [] then return_io ()
          else
            bind_io (call (SendTestSummary summary
                             \<lparr>n_recipients = recipients env, n_severity = severity summary,
                              n_subject = summarySubject tpl summary\<rparr>)
                          (sendTestSummary (notifier c) summary
                             \<lparr>n_recipients = recipients env, n_severity = severity summary,
                              n_subject = summarySubject tpl summary\<rparr>)) (\<lambda>summaryResult.
            if failures \<noteq> []
            then bind_io (call (SendTestFailures failures
                                  \<lparr>n_recipients = recipients env, n_severity = SevError,
                                   n_subject = failuresSubject tpl failures\<rparr>)
                               (sendTestFailures (notifier c) failures
                                  \<lparr>n_recipients = recipients env, n_severity = SevError,
                                   n_subject = failuresSubject tpl failures\<rparr>))
                   (\<lambda>failuresResult. return_io ())
            else return_io ())))
       (\<lambda>error. return_io ())"

section \<open>The end of the run\<close>

definition lastRunData :: "Reporter \<Rightarrow> bool \<Rightarrow> LastRunData" where
  "lastRunData st hasFailed =
     \<lparr>l_status = (if hasFailed then ''failed'' else ''passed''),
      l_failedTests = map (\<lambda>kv. d_testId (test (snd kv)))
                        (filter (\<lambda>kv. d_status (test (snd kv)) = ''failed'') (testRecords st))\<rparr>"

definition saveLastRunStatus ::
  "ReporterConfig \<Rightarrow> Collaborators \<Rightarrow> Templates \<Rightarrow> Reporter \<Rightarrow> bool \<Rightarrow> unit io" where
  "saveLastRunStatus cfg c tpl st hasFailed =
     try_catch
       (bind_io (if \<not> existsSync (fileSystem c) (outputDir cfg)
                 then call (MkOutputDir (outputDir cfg)) (mkdirSync (fileSystem c) (outputDir cfg))
                 else return_io ()) (\<lambda>_.
        call (WriteLastRun (lastRunPath tpl (outputDir cfg)) (lastRunData st hasFailed))
             (writeFileSync (fileSystem c) (lastRunPath tpl (outputDir cfg)))))
       (\<lambda>error. return_io ())"

definition summary_of :: "ReporterConfig \<Rightarrow> TestUtils \<Rightarrow> Env \<Rightarrow> Reporter \<Rightarrow> TestSummary" where
  "summary_of cfg u env st =
     (let p = processTestResults u (testRecords st)
      in \<lparr>s_failures = p_failures p,
          s_testCount = p_testCount p,
          s_passedCount = p_passedCount p,
          s_skippedCount = p_skippedCount p,
          s_failedCount = int (p_testCount p) - int (p_passedCount p) - int (p_skippedCount p),
          s_totalTimeDisplay = formatTime u (totalTimeSec env),
          s_averageTime = calculateAverageTime u (p_passedDurations p),
          s_slowestTest = foldr max (p_passedDurations p) 0,
          s_slowestTests = findSlowestTests u (testRecords st) (maxSlowTestsToShow cfg),
          s_buildInfo = getBuildInfo env\<rparr>)"

text \<open>The four guarded calls of the channels in \<open>onEnd\<close>.\<close>

definition fixStage ::
  "ReporterConfig \<Rightarrow> Collaborators \<Rightarrow> Env \<Rightarrow> Templates \<Rightarrow> TestFailure list \<Rightarrow> unit io" where
  "fixStage cfg c env tpl failures =
     (if generateFix cfg \<and> failures \<noteq> []
      then generateFixSuggestions cfg c env tpl failures else return_io ())"

definition bugStage :: "ReporterConfig \<Rightarrow> Collaborators \<Rightarrow> Templates \<Rightarrow> TestFailure list \<Rightarrow> unit io" where
  "bugStage cfg c tpl failures =
     (if createBug_enabled cfg \<and> failures \<noteq> []
      then createBugsForFailures c tpl failures else return_io ())"

definition dbStage ::
  "ReporterConfig \<Rightarrow> Collaborators \<Rightarrow> Env \<Rightarrow> TestSummary \<Rightarrow> TestCaseDetails list \<Rightarrow> TestFailure list \<Rightarrow> unit io" where
  "dbStage cfg c env summary allTestCases failures =
     (if publishToDB cfg
      then publishToDatabase c env summary allTestCases failures else return_io ())"

definition mailStage ::
  "ReporterConfig \<Rightarrow> Collaborators \<Rightarrow> Env \<Rightarrow> Templates \<Rightarrow> TestSummary \<Rightarrow> TestFailure list \<Rightarrow> unit io" where
  "mailStage cfg c env tpl summary failures =
     (if sendEmail cfg
      then sendEmailNotification c env tpl summary failures else return_io ())"

definition allTestCases :: "Reporter \<Rightarrow> TestCaseDetails list" where
  "allTestCases st = map (\<lambda>kv. test (snd kv)) (testRecords st)"

definition hasErrors :: "TestUtils \<Rightarrow> Reporter \<Rightarrow> bool" where
  "hasErrors u st =
     (p_failures (processTestResults u (testRecords st)) \<noteq> [] \<or> nonTestErrors st \<noteq> [] \<or> hasInterruptedTests st)"

text \<open>
  \<open>onEnd\<close>. With no tests it reports so, sets the failing exit code and returns. Otherwise
  the channels run in the order of the source text, the summary is written between the
  bug channel and the database channel, the last-run status is saved, and the exit code
  is set from the failures, the setup/teardown errors and the interrupted flag.
\<close>

definition onEnd ::
  "ReporterConfig \<Rightarrow> TestUtils \<Rightarrow> Collaborators \<Rightarrow> Env \<Rightarrow> Templates \<Rightarrow> Reporter \<Rightarrow> unit io" where
  "onEnd cfg u c env tpl st =
     (let failures = p_failures (processTestResults u (testRecords st));
          testCount = p_testCount (processTestResults u (testRecords st))
      in if testCount = 0
         then bind_io (call NoTestsFound (Inr ())) (\<lambda>_. exitWithError)
         else
           let summary = summary_of cfg u env st
           in
           bind_io (fixStage cfg c env tpl failures) (\<lambda>_.
           bind_io (bugStage cfg c tpl failures) (\<lambda>_.
           bind_io (call (WriteSummary summary (allTestCases st))
                         (writeSummary (fileSystem c) summary (allTestCases st))) (\<lambda>_.
           bind_io (dbStage cfg c env summary (allTestCases st) failures) (\<lambda>_.
           bind_io (mailStage cfg c env tpl summary failures) (\<lambda>_.
           bind_io (saveLastRunStatus cfg c tpl st (failures \<noteq> [])) (\<lambda>_.
           if hasErrors u st then exitWithError else exitWithSuccess)))))))"

text \<open>A run from a fresh process: no exit code set, an empty cache.\<close>

definition fresh :: world where
  "fresh = \<lparr>sourceCodeCache = [], exitCode = None\<rparr>"

section \<open>Vocabulary of the properties\<close>

text \<open>The test-end events of a run, those under one title, and the setup errors.\<close>

fun test_ends :: "event list \<Rightarrow> (TestCase \<times> TestResult) list" where
  "test_ends [] = []"
| "test_ends (TestEnd t r # evs) = (t, r) # test_ends evs"
| "test_ends (SetupError e # evs) = test_ends evs"

fun setup_errors :: "event list \<Rightarrow> JsError list" where
  "setup_errors [] = []"
| "setup_errors (TestEnd t r # evs) = setup_errors evs"
| "setup_errors (SetupError e # evs) = e # setup_errors evs"

definition titled :: "string \<Rightarrow> event list \<Rightarrow> (TestCase \<times> TestResult) list" where
  "titled k evs = filter (\<lambda>p. tc_title (fst p) = k) (test_ends evs)"

text \<open>The record that a list of test ends under one title leaves in the store.\<close>

definition record_of :: "TestUtils \<Rightarrow> (TestCase \<times> TestResult) list \<Rightarrow> TestRecord option" where
  "record_of u es = (case es of [] \<Rightarrow> None
     | p # _ \<Rightarrow> Some \<lparr>test = testCaseDetails u (fst p), attempts = map (\<lambda>q. attempt_of (snd q)) es\<rparr>)"

text \<open>The record after one more attempt, from the record found under the key, if any.\<close>

definition pushed :: "TestUtils \<Rightarrow> TestCase \<Rightarrow> TestResult \<Rightarrow> TestRecord option \<Rightarrow> TestRecord" where
  "pushed u t result old =
     (case old of None \<Rightarrow> \<lparr>test = testCaseDetails u t, attempts = [attempt_of result]\<rparr>
      | Some r \<Rightarrow> r\<lparr>attempts := attempts r @ [attempt_of result]\<rparr>)"

text \<open>The test identity of the specification: the suite path and the title.\<close>

definition identity_spec :: "TestCase \<Rightarrow> string list \<times> string" where
  "identity_spec t = (tc_suitePath t, tc_title t)"

text \<open>
  The stage of the end of the run that an action belongs to: the fix channel with its
  pull requests, the bug channel, the writing of the summary, the database channel, the
  notification channel, the last-run status.
\<close>

fun rank :: "action \<Rightarrow> nat" where
  "rank (GetBugTrackerProvider) = 1"
| "rank (CreateBug _) = 1"
| "rank (WriteSummary _ _) = 2"
| "rank (GetDatabaseProvider) = 3"
| "rank (DbInitialize) = 3"
| "rank (SaveTestRun _) = 3"
| "rank (SaveTestResult _) = 3"
| "rank (GetNotificationProvider) = 4"
| "rank (SendTestSummary _ _) = 4"
| "rank (SendTestFailures _ _) = 4"
| "rank (MkOutputDir _) = 5"
| "rank (WriteLastRun _ _) = 5"
| "rank _ = 0"

text \<open>Inside the fix channel: the calls of the pull-request automation come second.\<close>

fun phase :: "action \<Rightarrow> nat" where
  "phase (GetPRProvider) = 1"
| "phase (ReadFix _) = 1"
| "phase (CreateBranch _ _) = 1"
| "phase (CommitChanges _ _ _) = 1"
| "phase (CreatePullRequest _) = 1"
| "phase _ = 0"

text \<open>A branch that is created carries the given name.\<close>

fun branch_ok :: "string \<Rightarrow> action \<Rightarrow> bool" where
  "branch_ok n (CreateBranch b base) = (b = n)"
| "branch_ok n _ = True"

text \<open>A last-run document that is written is the given one.\<close>

fun last_run_ok :: "LastRunData \<Rightarrow> action \<Rightarrow> bool" where
  "last_run_ok d (WriteLastRun path d') = (d' = d)"
| "last_run_ok d _ = True"

text \<open>The calls of the loop of the fix channel, one list for each failure, in order.\<close>

fun fix_segments ::
  "ReporterConfig \<Rightarrow> Collaborators \<Rightarrow> Env \<Rightarrow> Templates \<Rightarrow> TestFailure list \<Rightarrow> world \<Rightarrow> action list list" where
  "fix_segments cfg c env tpl [] w = []"
| "fix_segments cfg c env tpl (f # fs) w =
     (case fixOneFailure cfg c env tpl f w of (tr, w', r) \<Rightarrow> tr # fix_segments cfg c env tpl fs w')"

text \<open>
  Properties of programs: every call made satisfies a predicate; the program never
  throws; the program neither reads nor writes the world; the calls come in the order of
  a rank, within bounds.
\<close>

definition emits :: "(action \<Rightarrow> bool) \<Rightarrow> 'a io \<Rightarrow> bool" where
  "emits P m = (\<forall>w. \<forall>a \<in> set (fst (m w)). P a)"

definition safe :: "'a io \<Rightarrow> bool" where
  "safe m = (\<forall>w. \<exists>tr w' x. m w = (tr, w', Inr x))"

definition frame :: "'a io \<Rightarrow> bool" where
  "frame m = (\<exists>tr r. \<forall>w. m w = (tr, w, r))"

definition ranked :: "(action \<Rightarrow> nat) \<Rightarrow> nat \<Rightarrow> nat \<Rightarrow> 'a io \<Rightarrow> bool" where
  "ranked rk lo hi m =
     (\<forall>w. sorted (map rk (fst (m w))) \<and> (\<forall>a \<in> set (fst (m w)). lo \<le> rk a \<and> rk a \<le> hi))"

section \<open>The helper that derives the failures\<close>

text \<open>
  Modelled from the spec: \<open>TestUtils.processTestResults\<close>, whose code is not among the
  sources. The specification says: the final status of a record is the status of its last
  attempt; the passed and skipped counts are the counts of records by final status; a
  Failure is built from each record whose final status is failed or timedOut and uses the
  final attempt's error; the passed durations are those of the attempts that passed. The
  test count is the number of records. Where the final attempt carries no error, the
  defaults of \<open>onTestEnd\<close> are used.
\<close>

definition finalAttempt :: "TestRecord \<Rightarrow> Attempt option" where
  "finalAttempt r = (if attempts r = [] then None else Some (last (attempts r)))"

definition finalStatus :: "TestRecord \<Rightarrow> TestStatus option" where
  "finalStatus r = map_option a_status (finalAttempt r)"

definition failure_of_final :: "(string \<Rightarrow> string) \<Rightarrow> TestRecord \<Rightarrow> Attempt \<Rightarrow> TestFailure" where
  "failure_of_final classify r a =
     (let errorMessage = (case a_errors a of [] \<Rightarrow> ''Unknown error'' | e # _ \<Rightarrow> ae_message e)
      in \<lparr>f_testId = d_testId (test r),
          f_testTitle = d_testTitle (test r),
          f_suiteTitle = d_suiteTitle (test r),
          f_errorMessage = errorMessage,
          f_errorStack = (case a_errors a of [] \<Rightarrow> [] | e # _ \<Rightarrow> or_default (ae_stack e) []),
          f_duration = a_duration a,
          f_owningTeam = d_owningTeam (test r),
          f_isTimeout = (a_status a = TimedOut),
          f_errorCategory = classify errorMessage,
          f_testFile = d_testFile (test r),
          f_location = d_location (test r)\<rparr>)"

definition failures_of_record :: "(string \<Rightarrow> string) \<Rightarrow> TestRecord \<Rightarrow> TestFailure list" where
  "failures_of_record classify r =
     (case finalAttempt r of
        None \<Rightarrow> []
      | Some a \<Rightarrow> if a_status a = Failed \<or> a_status a = TimedOut then [failure_of_final classify r a] else [])"

definition processTestResults_spec :: "(string \<Rightarrow> string) \<Rightarrow> store \<Rightarrow> Processed" where
  "processTestResults_spec classify m =
     \<lparr>p_passedCount = length (filter (\<lambda>kv. finalStatus (snd kv) = Some Passed) m),
      p_testCount = length m,
      p_skippedCount = length (filter (\<lambda>kv. finalStatus (snd kv) = Some Skipped) m),
      p_failures = concat (map (\<lambda>kv. failures_of_record classify (snd kv)) m),
      p_passedDurations =
        concat (map (\<lambda>kv. map a_duration (filter (\<lambda>a. a_status a = Passed) (attempts (snd kv)))) m)\<rparr>"

text \<open>
  In terms of the events: the test ends under a title end in a failing attempt; the
  message and the stack that the last attempt stores first.
\<close>

definition final_failing :: "(TestCase \<times> TestResult) list \<Rightarrow> bool" where
  "final_failing es = (es \<noteq> [] \<and> (r_status (snd (last es)) = Failed \<or> r_status (snd (last es)) = TimedOut))"

definition final_message :: "TestResult \<Rightarrow> string" where
  "final_message result =
     (case r_errors result of [] \<Rightarrow> ''Unknown error'' | e # _ \<Rightarrow> or_default (e_message e) ''No error message'')"

definition final_stack :: "TestResult \<Rightarrow> string" where
  "final_stack result = (case r_errors result of [] \<Rightarrow> [] | e # _ \<Rightarrow> or_default (e_stack e) [])"

section \<open>Concrete runs\<close>

text \<open>
  Inputs on which the properties below are evaluated: a test of a suite, a result with a
  status and an error message, helpers that classify nothing, and collaborators that
  answer every call.
\<close>

definition ex_utils :: TestUtils where
  "ex_utils =
     \<lparr>outcomeToStatus = (\<lambda>outcome. if outcome = ''unexpected'' then ''failed'' else ''passed''),
      getOwningTeam = (\<lambda>t. ''qa''),
      categorizeError = (\<lambda>m. ''UnknownError''),
      processTestResults = processTestResults_spec (\<lambda>m. ''UnknownError''),
      calculateAverageTime = (\<lambda>ds. 0),
      findSlowestTests = (\<lambda>m k. []),
      formatTime = (\<lambda>t. ''0s'')\<rparr>"

definition ex_test :: "string \<Rightarrow> string \<Rightarrow> TestCase" where
  "ex_test suite title =
     \<lparr>tc_id = suite @ ''/'' @ title,
      tc_title = title,
      tc_suitePath = [suite],
      tc_location = Some \<lparr>loc_file = suite @ ''.spec.ts'', loc_line = 1, loc_column = 1\<rparr>,
      tc_outcome = ''expected''\<rparr>"

definition ex_result :: "TestStatus \<Rightarrow> string \<Rightarrow> TestResult" where
  "ex_result s msg =
     \<lparr>r_status = s,
      r_duration = 1000,
      r_errors = (if msg = [] then [] else [\<lparr>e_message = Some msg, e_stack = None\<rparr>]),
      r_retry = 0\<rparr>"

definition ex_collab :: Collaborators where
  "ex_collab =
     \<lparr>fileSystem =
        \<lparr>existsSync = (\<lambda>p. True),
         mkdirSync = (\<lambda>p. Inr ()),
         readFileSync = (\<lambda>p. Inr ''text''),
         writeFileSync = (\<lambda>p. Inr ()),
         writeSummary = (\<lambda>s cs. Inr ())\<rparr>,
      aiProvider = \<lparr>getAIProvider = Inr (), generateCompletion = (\<lambda>p. Inr ''fix'')\<rparr>,
      prProvider =
        \<lparr>getPRProvider = Inr (),
         createBranch = (\<lambda>b base. Inr True),
         commitChanges = (\<lambda>b changes m. Inr (Some ''abc1234'')),
         createPullRequest = (\<lambda>opts. Inr (Some \<lparr>pi_number = 1, pi_url = ''url''\<rparr>))\<rparr>,
      bugTracker =
        \<lparr>getBugTrackerProvider = Inr (),
         createBug = (\<lambda>d. Inr (Some \<lparr>bi_id = ''1'', bi_url = ''url'', bi_status = ''Open''\<rparr>))\<rparr>,
      database =
        \<lparr>getDatabaseProvider = Inr (),
         dbInitialize = Inr (),
         saveTestRun = (\<lambda>r. Inr ''run-1''),
         saveTestResult = (\<lambda>r. Inr ''row'')\<rparr>,
      notifier =
        \<lparr>getNotificationProvider = Inr (),
         sendTestSummary = (\<lambda>s opts. Inr \<lparr>nr_success = True\<rparr>),
         sendTestFailures = (\<lambda>fl opts. Inr \<lparr>nr_success = True\<rparr>)\<rparr>\<rparr>"

definition ex_env :: Env where
  "ex_env =
     \<lparr>DATABASE_PROVIDER = Some ''sqlite'',
      NOTIFICATION_PROVIDER = Some ''email'',
      EMAIL_RECIPIENTS = Some ''dev@example.com, qa@example.com'',
      BASE_BRANCH = None,
      GITHUB_BASE_REF = None,
      NODE_ENV = None,
      nowISOString = ''2025-01-02T03:04:05.678Z'',
      dateNow = ''1735787045678'',
      totalTimeSec = 3,
      getBuildInfo = \<lparr>buildBranch = None, commitId = None\<rparr>\<rparr>"

definition ex_tpl :: Templates where
  "ex_tpl =
     \<lparr>promptDir = ''prompts'',
      fixesDir = ''fixes'',
      promptPath = (\<lambda>f. ''prompts/'' @ f_testId f),
      fixPath = (\<lambda>f. ''fixes/'' @ f_testId f),
      promptContent = (\<lambda>f source. ''prompt''),
      commitMessage = (\<lambda>f. ''fix''),
      prTitle = (\<lambda>f. ''Auto-fix: '' @ f_testTitle f),
      prDescription = (\<lambda>f h. ''description''),
      bugDescription = (\<lambda>f. ''report''),
      lastRunPath = (\<lambda>d. d @ ''/.last-run.json''),
      summarySubject = (\<lambda>s. ''summary''),
      failuresSubject = (\<lambda>fl. ''failures'')\<rparr>"

definition ex_cfg :: ReporterConfig where
  "ex_cfg =
     \<lparr>maxSlowTestsToShow = 3,
      outputDir = ''out'',
      generateFix = True,
      createBug_enabled = True,
      generatePR = True,
      publishToDB = True,
      sendEmail = True\<rparr>"

text \<open>
  Event lists: a test that fails and passes on retry, beside one that fails; two tests of
  one title in two suites, the first failing, the second passing; one passing test; a
  passing test beside an interrupted one; a setup error before a passing test.
\<close>

definition ex_retry :: "event list" where
  "ex_retry =
     [TestEnd (ex_test ''A'' ''t'') (ex_result Failed ''boom''),
      TestEnd (ex_test ''A'' ''t'') (ex_result Passed []),
      TestEnd (ex_test ''A'' ''u'') (ex_result Failed ''late'')]"

definition ex_same_title :: "event list" where
  "ex_same_title =
     [TestEnd (ex_test ''A'' ''t'') (ex_result Failed ''boom''),
      TestEnd (ex_test ''B'' ''t'') (ex_result Passed [])]"

definition ex_all_pass :: "event list" where
  "ex_all_pass = [TestEnd (ex_test ''A'' ''t'') (ex_result Passed [])]"

definition ex_interrupted :: "event list" where
  "ex_interrupted =
     [TestEnd (ex_test ''A'' ''t'') (ex_result Passed []),
      TestEnd (ex_test ''A'' ''u'') (ex_result Interrupted [])]"

definition ex_setup_error :: "event list" where
  "ex_setup_error =
     [SetupError \<lparr>err_message = ''setup'', err_stack = None\<rparr>,
      TestEnd (ex_test ''A'' ''t'') (ex_result Passed [])]"

text \<open>
  Collaborators that fail: a bug tracker that throws on every call; a notifier whose
  summary call throws; an AI provider that throws on every completion, with a file system
  that reads the fix artifact back as it was written.
\<close>

definition ex_collab_bug_throws :: Collaborators where
  "ex_collab_bug_throws =
     ex_collab\<lparr>bugTracker :=
        \<lparr>getBugTrackerProvider = Inr (), createBug = (\<lambda>d. Inl (Error ''tracker down''))\<rparr>\<rparr>"

definition ex_collab_summary_throws :: Collaborators where
  "ex_collab_summary_throws =
     ex_collab\<lparr>notifier :=
        \<lparr>getNotificationProvider = Inr (),
         sendTestSummary = (\<lambda>s opts. Inl (Error ''smtp down'')),
         sendTestFailures = (\<lambda>fl opts. Inr \<lparr>nr_success = True\<rparr>)\<rparr>\<rparr>"

definition ex_collab_ai_throws :: Collaborators where
  "ex_collab_ai_throws =
     ex_collab\<lparr>aiProvider :=
        \<lparr>getAIProvider = Inr (), generateCompletion = (\<lambda>p. Inl (Error ''401''))\<rparr>,
      fileSystem :=
        \<lparr>existsSync = (\<lambda>p. True),
         mkdirSync = (\<lambda>p. Inr ()),
         readFileSync = (\<lambda>p. if p = ''fixes/A/u''
                             then Inr ''Error retrieving suggestion from AI provider: 401''
                             else Inr ''text''),
         writeFileSync = (\<lambda>p. Inr ()),
         writeSummary = (\<lambda>s cs. Inr ())\<rparr>\<rparr>"

text \<open>The failure of the test \<open>u\<close> of suite \<open>A\<close>, as \<open>onTestEnd\<close> builds it.\<close>

definition ex_failure :: TestFailure where
  "ex_failure = attempt_failure ex_utils (ex_test ''A'' ''u'') (ex_result Failed ''late'')"

section \<open>Facts about the record store\<close>

lemma map_of_Map_set: "map_of (Map_set m k v) = (map_of m)(k \<mapsto> v)"
  by (induction m) (auto simp: fun_eq_iff)

lemma Map_has_iff: "Map_has m k \<longleftrightarrow> map_of m k \<noteq> None"
  by (simp add: Map_has_def map_of_eq_None_iff)

lemma keys_Map_set: "map fst (Map_set m k v) = (if k \<in> set (map fst m) then map fst m else map fst m @ [k])"
  by (induction m) auto

lemma distinct_Map_set: "distinct (map fst m) \<Longrightarrow> distinct (map fst (Map_set m k v))"
  by (simp add: keys_Map_set)

lemma onTestEnd_store:
  "map_of (testRecords (snd (onTestEnd u t result st))) =
     (map_of (testRecords st))(tc_title t \<mapsto> pushed u t result (map_of (testRecords st) (tc_title t)))"
  by (auto simp: onTestEnd_def Let_def Map_has_iff Map_get_def map_of_Map_set pushed_def fun_eq_iff
      split: option.splits)

lemma onTestEnd_distinct:
  "distinct (map fst (testRecords st)) \<Longrightarrow> distinct (map fst (testRecords (snd (onTestEnd u t result st))))"
  by (auto simp: onTestEnd_def Let_def distinct_Map_set split: option.splits)

lemma collect_snoc: "collect u (evs @ [e]) = deliver u e (collect u evs)"
  by (simp add: collect_def)

lemma test_ends_append: "test_ends (xs @ ys) = test_ends xs @ test_ends ys"
  by (induction xs rule: test_ends.induct) auto

lemma titled_snoc_end: "titled k (evs @ [TestEnd t r]) = titled k evs @ (if tc_title t = k then [(t, r)] else [])"
  by (simp add: titled_def test_ends_append)

lemma titled_snoc_err: "titled k (evs @ [SetupError e]) = titled k evs"
  by (simp add: titled_def test_ends_append)

lemma record_of_snoc:
  "pushed u t r (record_of u es) = the (record_of u (es @ [(t, r)]))"
  by (cases es) (auto simp: pushed_def record_of_def)

lemma record_of_snoc_Some: "record_of u (es @ [(t, r)]) = Some (pushed u t r (record_of u es))"
  by (cases es) (auto simp: pushed_def record_of_def)

lemma store_of_collect:
  "map_of (testRecords (snd (collect u evs))) k = record_of u (titled k evs)"
proof (induction evs arbitrary: k rule: rev_induct)
  case Nil
  show ?case by (simp add: collect_def initial_def titled_def record_of_def)
next
  case (snoc e evs)
  obtain tr st where c: "collect u evs = (tr, st)" by (cases "collect u evs")
  show ?case
  proof (cases e)
    case (TestEnd t r)
    have "testRecords (snd (collect u (evs @ [e]))) = testRecords (snd (onTestEnd u t r st))"
      by (simp add: collect_snoc c TestEnd split: prod.splits)
    then show ?thesis using snoc.IH [of k] snoc.IH [of "tc_title t"]
      by (simp add: onTestEnd_store c TestEnd titled_snoc_end record_of_snoc_Some)
  next
    case (SetupError x)
    then show ?thesis using snoc.IH c
      by (simp add: collect_snoc titled_snoc_err onError_def)
  qed
qed

lemma distinct_collect: "distinct (map fst (testRecords (snd (collect u evs))))"
proof (induction evs rule: rev_induct)
  case Nil
  show ?case by (simp add: collect_def initial_def)
next
  case (snoc e evs)
  obtain tr st where c: "collect u evs = (tr, st)" by (cases "collect u evs")
  show ?case
  proof (cases e)
    case (TestEnd t r)
    have "testRecords (snd (collect u (evs @ [e]))) = testRecords (snd (onTestEnd u t r st))"
      by (simp add: collect_snoc c TestEnd split: prod.splits)
    then show ?thesis using snoc c onTestEnd_distinct [of st u t r] by simp
  next
    case (SetupError x)
    then show ?thesis using snoc c by (simp add: collect_snoc onError_def)
  qed
qed

section \<open>Facts about programs\<close>

lemma emits_return [intro!]: "emits P (return_io x)"
  by (simp add: emits_def return_io_def)

lemma emits_call [intro!]: "P a \<Longrightarrow> emits P (call a outcome)"
  by (simp add: emits_def call_def)

lemma emits_bind [intro!]: "emits P m \<Longrightarrow> (\<And>x. emits P (f x)) \<Longrightarrow> emits P (bind_io m f)"
  unfolding emits_def bind_io_def
  by (auto split: prod.splits sum.splits) (metis fst_conv)+

lemma emits_try [intro!]: "emits P m \<Longrightarrow> (\<And>e. emits P (h e)) \<Longrightarrow> emits P (try_catch m h)"
  unfolding emits_def try_catch_def
  by (auto split: prod.splits sum.splits) (metis fst_conv)+

lemma emits_for_each [intro!]: "(\<And>x. emits P (body x)) \<Longrightarrow> emits P (for_each xs body)"
  by (induction xs) auto

lemma emits_cache [intro!]:
  "emits P (cache_has k)" "emits P (cache_get k)" "emits P (cache_set k v)" "emits P cache_new"
  "emits P exitWithSuccess" "emits P exitWithError"
  by (simp_all add: emits_def cache_has_def cache_get_def cache_set_def cache_new_def
      exitWithSuccess_def exitWithError_def)

lemma safe_return [intro!]: "safe (return_io x)"
  by (simp add: safe_def return_io_def)

lemma safe_try [intro!]:
  assumes "\<And>e. safe (h e)"
  shows "safe (try_catch m h)"
  unfolding safe_def
proof
  fix w
  obtain tr w' r where mw: "m w = (tr, w', r)" by (cases "m w")
  show "\<exists>tr w' x. try_catch m h w = (tr, w', Inr x)"
  proof (cases r)
    case (Inr x)
    then show ?thesis using mw by (simp add: try_catch_def)
  next
    case (Inl e)
    from assms [of e] obtain tr' w'' x where "h e w' = (tr', w'', Inr x)"
      unfolding safe_def by blast
    then show ?thesis using mw Inl by (simp add: try_catch_def)
  qed
qed

lemma safe_bind [intro!]:
  assumes "safe m" and "\<And>x. safe (f x)"
  shows "safe (bind_io m f)"
  unfolding safe_def
proof
  fix w
  from assms(1) obtain tr w' x where mw: "m w = (tr, w', Inr x)"
    unfolding safe_def by blast
  from assms(2) [of x] obtain tr' w'' y where "f x w' = (tr', w'', Inr y)"
    unfolding safe_def by blast
  then show "\<exists>tr w' x. bind_io m f w = (tr, w', Inr x)"
    using mw by (simp add: bind_io_def)
qed

lemma safe_for_each [intro!]: "(\<And>x. safe (body x)) \<Longrightarrow> safe (for_each xs body)"
  by (induction xs) auto

lemma safe_cache [intro!]:
  "safe (cache_has k)" "safe (cache_get k)" "safe (cache_set k v)" "safe cache_new"
  "safe exitWithSuccess" "safe exitWithError"
  by (simp_all add: safe_def cache_has_def cache_get_def cache_set_def cache_new_def
      exitWithSuccess_def exitWithError_def)

lemma frame_return [intro!]: "frame (return_io x)"
  by (auto simp: frame_def return_io_def)

lemma frame_call [intro!]: "frame (call a outcome)"
  by (auto simp: frame_def call_def)

lemma frame_bind [intro!]: "frame m \<Longrightarrow> (\<And>x. frame (f x)) \<Longrightarrow> frame (bind_io m f)"
proof -
  assume m: "frame m" and f: "\<And>x. frame (f x)"
  from m obtain tr r where mw: "\<And>w. m w = (tr, w, r)" by (auto simp: frame_def)
  show ?thesis
  proof (cases r)
    case (Inl e)
    then show ?thesis using mw by (auto simp: frame_def bind_io_def)
  next
    case (Inr x)
    from f [of x] obtain tr' r' where "\<And>w. f x w = (tr', w, r')" by (auto simp: frame_def)
    then show ?thesis using mw Inr by (auto simp: frame_def bind_io_def)
  qed
qed

lemma frame_try [intro!]: "frame m \<Longrightarrow> (\<And>e. frame (h e)) \<Longrightarrow> frame (try_catch m h)"
proof -
  assume m: "frame m" and h: "\<And>e. frame (h e)"
  from m obtain tr r where mw: "\<And>w. m w = (tr, w, r)" by (auto simp: frame_def)
  show ?thesis
  proof (cases r)
    case (Inr x)
    then show ?thesis using mw by (auto simp: frame_def try_catch_def)
  next
    case (Inl e)
    from h [of e] obtain tr' r' where "\<And>w. h e w = (tr', w, r')" by (auto simp: frame_def)
    then show ?thesis using mw Inl by (auto simp: frame_def try_catch_def)
  qed
qed

lemma frame_for_each [intro!]: "(\<And>x. frame (body x)) \<Longrightarrow> frame (for_each xs body)"
  by (induction xs) auto

lemma sorted_const: "\<forall>a \<in> set xs. rk a = (k::nat) \<Longrightarrow> sorted (map rk xs)"
  by (induction xs) auto

lemma ranked_const: "emits (\<lambda>a. rk a = k) m \<Longrightarrow> ranked rk k k m"
  unfolding ranked_def emits_def
  by (auto intro: sorted_const)

lemma ranked_weaken: "ranked rk lo hi m \<Longrightarrow> lo' \<le> lo \<Longrightarrow> hi \<le> hi' \<Longrightarrow> ranked rk lo' hi' m"
  unfolding ranked_def by fastforce

lemma ranked_return [intro!]: "ranked rk lo hi (return_io x)"
  by (simp add: ranked_def return_io_def)

lemma ranked_exit [intro!]: "ranked rk lo hi exitWithSuccess" "ranked rk lo hi exitWithError"
  by (simp_all add: ranked_def exitWithSuccess_def exitWithError_def)

lemma ranked_bind:
  assumes "ranked rk lo mid m" and "\<And>x. ranked rk mid hi (f x)" and "lo \<le> mid" and "mid \<le> hi"
  shows "ranked rk lo hi (bind_io m f)"
  unfolding ranked_def
proof (intro allI)
  fix w
  obtain tr w' r where mw: "m w = (tr, w', r)" by (cases "m w")
  have m1: "sorted (map rk tr)" "\<forall>a\<in>set tr. lo \<le> rk a \<and> rk a \<le> mid"
    using assms(1) mw unfolding ranked_def by (metis fst_conv)+
  show "sorted (map rk (fst (bind_io m f w))) \<and> (\<forall>a\<in>set (fst (bind_io m f w)). lo \<le> rk a \<and> rk a \<le> hi)"
  proof (cases r)
    case (Inl e)
    then show ?thesis using mw m1 assms(3,4) by (auto simp: bind_io_def)
  next
    case (Inr x)
    obtain tr' w'' r' where fw: "f x w' = (tr', w'', r')" by (cases "f x w'")
    have f1: "sorted (map rk tr')" "\<forall>a\<in>set tr'. mid \<le> rk a \<and> rk a \<le> hi"
      using assms(2) [of x] fw unfolding ranked_def by (metis fst_conv)+
    show ?thesis using mw Inr fw m1 f1 assms(3,4)
      by (auto simp: bind_io_def sorted_append) (meson order_trans)+
  qed
qed

section \<open>Facts about the channels\<close>

lemma frame_callGen: "frame (callGenAISuggestion c prompt)"
  unfolding callGenAISuggestion_def by (intro frame_try frame_bind frame_call frame_return)

lemma frame_generatePullRequest: "frame (generatePullRequest c env tpl failure fixResult)"
  unfolding generatePullRequest_def Let_def by (auto intro!: frame_try)

lemma frame_createBugs: "frame (createBugsForFailures c tpl failures)"
  unfolding createBugsForFailures_def by auto

lemma frame_publish: "frame (publishToDatabase c env summary cases failures)"
  unfolding publishToDatabase_def by auto

lemma frame_sendEmail: "frame (sendEmailNotification c env tpl summary failures)"
  unfolding sendEmailNotification_def by auto

lemma frame_saveLastRun: "frame (saveLastRunStatus cfg c tpl st hasFailed)"
  unfolding saveLastRunStatus_def by auto

lemma safe_generateFixSuggestion: "safe (generateFixSuggestion c tpl failure)"
  unfolding generateFixSuggestion_def by (auto split: option.splits)

lemma safe_generatePullRequest: "safe (generatePullRequest c env tpl failure fixResult)"
  unfolding generatePullRequest_def by auto

lemma safe_fixOneFailure: "safe (fixOneFailure cfg c env tpl failure)"
  unfolding fixOneFailure_def by auto

lemma safe_generateFixSuggestions: "safe (generateFixSuggestions cfg c env tpl failures)"
  unfolding generateFixSuggestions_def by (auto intro: safe_fixOneFailure)

lemma safe_createBugs: "safe (createBugsForFailures c tpl failures)"
  unfolding createBugsForFailures_def by auto

lemma safe_publish: "safe (publishToDatabase c env summary cases failures)"
  unfolding publishToDatabase_def by auto

lemma safe_sendEmail: "safe (sendEmailNotification c env tpl summary failures)"
  unfolding sendEmailNotification_def by auto

lemma safe_saveLastRun: "safe (saveLastRunStatus cfg c tpl st hasFailed)"
  unfolding saveLastRunStatus_def by auto

lemma emits_callGen: "emits (\<lambda>a. rank a = 0 \<and> phase a = 0) (callGenAISuggestion c prompt)"
  unfolding callGenAISuggestion_def by auto

lemma emits_generateFixSuggestion: "emits (\<lambda>a. rank a = 0 \<and> phase a = 0) (generateFixSuggestion c tpl failure)"
  unfolding generateFixSuggestion_def by (auto split: option.splits intro: emits_callGen)

lemma emits_generatePullRequest:
  "emits (\<lambda>a. rank a = 0 \<and> phase a = 1 \<and> branch_ok (branchName env failure) a)
     (generatePullRequest c env tpl failure fixResult)"
  unfolding generatePullRequest_def Let_def by auto

lemma emits_createBugs: "emits (\<lambda>a. rank a = 1) (createBugsForFailures c tpl failures)"
  unfolding createBugsForFailures_def by auto

lemma emits_publish: "emits (\<lambda>a. rank a = 3) (publishToDatabase c env summary cases failures)"
  unfolding publishToDatabase_def by auto

lemma emits_sendEmail: "emits (\<lambda>a. rank a = 4) (sendEmailNotification c env tpl summary failures)"
  unfolding sendEmailNotification_def by auto

lemma emits_saveLastRun: "emits (\<lambda>a. rank a = 5) (saveLastRunStatus cfg c tpl st hasFailed)"
  unfolding saveLastRunStatus_def by auto

lemma emits_mono: "emits P m \<Longrightarrow> (\<And>a. P a \<Longrightarrow> Q a) \<Longrightarrow> emits Q m"
  unfolding emits_def by blast

lemma phase0_branch_ok: "phase a = 0 \<Longrightarrow> branch_ok n a"
  by (cases a) simp_all

lemma emits_generateFixSuggestion_branch:
  "emits (\<lambda>a. rank a = 0 \<and> branch_ok n a) (generateFixSuggestion c tpl failure)"
  by (rule emits_mono [OF emits_generateFixSuggestion]) (simp add: phase0_branch_ok)

lemma emits_generatePullRequest_branch:
  "emits (\<lambda>a. rank a = 0 \<and> branch_ok (branchName env failure) a)
     (generatePullRequest c env tpl failure fixResult)"
  by (rule emits_mono [OF emits_generatePullRequest]) simp

lemma emits_fixOneFailure:
  "emits (\<lambda>a. rank a = 0 \<and> branch_ok (branchName env failure) a)
     (fixOneFailure cfg c env tpl failure)"
  unfolding fixOneFailure_def
  by (auto split: option.splits
      intro: emits_generateFixSuggestion_branch emits_generatePullRequest_branch)

lemma emits_generateFixSuggestions: "emits (\<lambda>a. rank a = 0) (generateFixSuggestions cfg c env tpl failures)"
  unfolding generateFixSuggestions_def
  by (auto intro: emits_mono [OF emits_fixOneFailure])

section \<open>The shape of a run of \<open>onEnd\<close>\<close>

lemma frame_safe_eq:
  fixes m :: "unit io"
  assumes "frame m" and "safe m"
  shows "m w = (fst (m fresh), w, Inr ())"
proof -
  from assms(1) obtain tr r where mw: "\<And>w. m w = (tr, w, r)" by (auto simp: frame_def)
  from assms(2) have "\<exists>tr' w'. m w = (tr', w', Inr ())" by (simp add: safe_def)
  with mw [of w] have "r = Inr ()" by auto
  with mw show ?thesis by simp
qed

lemma safe_unit:
  fixes m :: "unit io"
  assumes "safe m"
  shows "m w = (fst (m w), fst (snd (m w)), Inr ())"
proof -
  from assms have "\<exists>tr' w'. m w = (tr', w', Inr ())" by (simp add: safe_def)
  then show ?thesis by auto
qed

lemma safe_fixStage: "safe (fixStage cfg c env tpl failures)"
  by (simp add: fixStage_def safe_generateFixSuggestions safe_return)

lemma stage_bug: "bugStage cfg c tpl failures w = (fst (bugStage cfg c tpl failures fresh), w, Inr ())"
  by (rule frame_safe_eq) (simp_all add: bugStage_def frame_createBugs safe_createBugs frame_return safe_return)

lemma stage_db: "dbStage cfg c env summary cases failures w = (fst (dbStage cfg c env summary cases failures fresh), w, Inr ())"
  by (rule frame_safe_eq) (simp_all add: dbStage_def frame_publish safe_publish frame_return safe_return)

lemma stage_mail: "mailStage cfg c env tpl summary failures w = (fst (mailStage cfg c env tpl summary failures fresh), w, Inr ())"
  by (rule frame_safe_eq) (simp_all add: mailStage_def frame_sendEmail safe_sendEmail frame_return safe_return)

lemma stage_last: "saveLastRunStatus cfg c tpl st b w = (fst (saveLastRunStatus cfg c tpl st b fresh), w, Inr ())"
  by (rule frame_safe_eq) (simp_all add: frame_saveLastRun safe_saveLastRun)

lemma onEnd_zero:
  assumes "p_testCount (processTestResults u (testRecords st)) = 0"
  shows "onEnd cfg u c env tpl st w = ([NoTestsFound], w\<lparr>exitCode := Some 1\<rparr>, Inr ())"
  using assms by (simp add: onEnd_def bind_io_def call_def exitWithError_def)

lemma onEnd_nonzero:
  assumes "p_testCount (processTestResults u (testRecords st)) \<noteq> 0"
  shows "onEnd cfg u c env tpl st w =
     (let failures = p_failures (processTestResults u (testRecords st));
          summary = summary_of cfg u env st;
          fixT = fst (fixStage cfg c env tpl failures w);
          w1 = fst (snd (fixStage cfg c env tpl failures w));
          bugT = fst (bugStage cfg c tpl failures fresh);
          dbT = fst (dbStage cfg c env summary (allTestCases st) failures fresh);
          mailT = fst (mailStage cfg c env tpl summary failures fresh);
          lastT = fst (saveLastRunStatus cfg c tpl st (failures \<noteq> []) fresh)
      in case writeSummary (fileSystem c) summary (allTestCases st) of
           Inl e \<Rightarrow> (fixT @ bugT @ [WriteSummary summary (allTestCases st)], w1, Inl e)
         | Inr _ \<Rightarrow> (fixT @ bugT @ [WriteSummary summary (allTestCases st)] @ dbT @ mailT @ lastT,
                     w1\<lparr>exitCode := Some (if hasErrors u st then 1 else 0)\<rparr>, Inr ()))"
proof -
  let ?failures = "p_failures (processTestResults u (testRecords st))"
  have fx: "fixStage cfg c env tpl ?failures w =
      (fst (fixStage cfg c env tpl ?failures w), fst (snd (fixStage cfg c env tpl ?failures w)), Inr ())"
    by (rule safe_unit [OF safe_fixStage])
  show ?thesis
    unfolding onEnd_def Let_def bind_io_def
    using assms
    apply (simp only: if_False)
    apply (subst fx)
    apply (simp only: prod.case sum.case)
    apply (subst stage_bug)
    apply (simp only: prod.case sum.case)
    apply (subst stage_db)
    apply (subst stage_mail)
    apply (subst stage_last)
    apply (simp add: call_def exitWithError_def exitWithSuccess_def split: sum.splits)
    done
qed

section \<open>Facts about the collected state\<close>

lemma collect_errors: "nonTestErrors (snd (collect u evs)) = setup_errors evs"
proof (induction evs rule: rev_induct)
  case Nil
  show ?case by (simp add: collect_def initial_def)
next
  case (snoc e evs)
  obtain tr st where c: "collect u evs = (tr, st)" by (cases "collect u evs")
  have app: "\<And>xs ys. setup_errors (xs @ ys) = setup_errors xs @ setup_errors ys"
    subgoal for xs ys by (induction xs rule: setup_errors.induct) auto
    done
  show ?case using snoc c
    by (cases e) (auto simp: collect_snoc onError_def onTestEnd_def Let_def app split: prod.splits)
qed

lemma collect_interrupted:
  "hasInterruptedTests (snd (collect u evs)) = (\<exists>p \<in> set (test_ends evs). r_status (snd p) = Interrupted)"
proof (induction evs rule: rev_induct)
  case Nil
  show ?case by (simp add: collect_def initial_def)
next
  case (snoc e evs)
  obtain tr st where c: "collect u evs = (tr, st)" by (cases "collect u evs")
  show ?case using snoc c
    by (cases e) (auto simp: collect_snoc onError_def onTestEnd_def Let_def test_ends_append split: prod.splits)
qed

lemma store_entry:
  assumes "(k, r) \<in> set (testRecords (snd (collect u evs)))"
  shows "record_of u (titled k evs) = Some r"
proof -
  have "map_of (testRecords (snd (collect u evs))) k = Some r"
    using assms distinct_collect [of u evs] by simp
  then show ?thesis by (simp add: store_of_collect)
qed

lemma titled_hd: "titled k evs \<noteq> [] \<Longrightarrow> tc_title (fst (hd (titled k evs))) = k"
proof -
  assume "titled k evs \<noteq> []"
  then have "hd (titled k evs) \<in> set (titled k evs)" by simp
  then show ?thesis unfolding titled_def by simp
qed

lemma failures_of_entry:
  assumes "(k, r) \<in> set (testRecords (snd (collect u evs)))"
  shows "failures_of_record cat r =
           (if final_failing (titled k evs)
            then [failure_of_final cat r (attempt_of (snd (last (titled k evs))))] else [])"
    and "d_testTitle (test r) = k"
    and "titled k evs \<noteq> []"
proof -
  from store_entry [OF assms] have ro: "record_of u (titled k evs) = Some r" .
  then show ne: "titled k evs \<noteq> []" by (auto simp: record_of_def)
  from ro ne have r: "r = \<lparr>test = testCaseDetails u (fst (hd (titled k evs))),
       attempts = map (\<lambda>q. attempt_of (snd q)) (titled k evs)\<rparr>"
    by (cases "titled k evs") (auto simp: record_of_def)
  show "d_testTitle (test r) = k"
    using titled_hd [OF ne] by (simp add: r testCaseDetails_def)
  have "finalAttempt r = Some (attempt_of (snd (last (titled k evs))))"
    using ne by (simp add: r finalAttempt_def last_map)
  then show "failures_of_record cat r =
           (if final_failing (titled k evs)
            then [failure_of_final cat r (attempt_of (snd (last (titled k evs))))] else [])"
    using ne by (simp add: failures_of_record_def final_failing_def attempt_of_def)
qed

lemma failure_fields:
  "f_testTitle (failure_of_final cat r a) = d_testTitle (test r)"
  "f_errorMessage (failure_of_final cat r (attempt_of result)) = final_message result"
  "f_errorStack (failure_of_final cat r (attempt_of result)) = final_stack result"
  by (simp_all add: failure_of_final_def Let_def attempt_of_def final_message_def final_stack_def
      split: list.splits)

lemma titles_of_failures:
  assumes "\<And>k r. (k, r) \<in> set m \<Longrightarrow>
      failures_of_record cat r = (if good k then [F k r] else []) \<and> f_testTitle (F k r) = k"
  shows "map f_testTitle (concat (map (\<lambda>kv. failures_of_record cat (snd kv)) m)) = filter good (map fst m)"
  using assms
proof (induction m)
  case Nil
  show ?case by simp
next
  case (Cons kv m)
  obtain k r where kv: "kv = (k, r)" by (cases kv)
  have "failures_of_record cat r = (if good k then [F k r] else []) \<and> f_testTitle (F k r) = k"
    using Cons.prems [of k r] kv by simp
  moreover have "map f_testTitle (concat (map (\<lambda>kv. failures_of_record cat (snd kv)) m)) = filter good (map fst m)"
    using Cons.IH Cons.prems by simp
  ultimately show ?case by (simp add: kv)
qed

lemma failure_titles:
  "map f_testTitle (p_failures (processTestResults_spec cat (testRecords (snd (collect u evs))))) =
     filter (\<lambda>k. final_failing (titled k evs)) (map fst (testRecords (snd (collect u evs))))"
proof -
  have "map f_testTitle (concat (map (\<lambda>kv. failures_of_record cat (snd kv)) (testRecords (snd (collect u evs)))))
      = filter (\<lambda>k. final_failing (titled k evs)) (map fst (testRecords (snd (collect u evs))))"
    by (rule titles_of_failures [where F = "\<lambda>k r. failure_of_final cat r (attempt_of (snd (last (titled k evs))))"])
       (simp add: failures_of_entry failure_fields)
  then show ?thesis by (simp add: processTestResults_spec_def)
qed

lemma key_iff: "k \<in> set (map fst (testRecords (snd (collect u evs)))) \<longleftrightarrow> titled k evs \<noteq> []"
proof -
  have "k \<in> set (map fst (testRecords (snd (collect u evs)))) \<longleftrightarrow> map_of (testRecords (snd (collect u evs))) k \<noteq> None"
    by (simp add: map_of_eq_None_iff)
  also have "\<dots> \<longleftrightarrow> titled k evs \<noteq> []"
    by (simp add: store_of_collect record_of_def split: list.splits)
  finally show ?thesis .
qed


lemma collect_actions:
  "fst (collect u evs) =
     map (\<lambda>p. AddFailure (attempt_failure u (fst p) (snd p)))
       (filter (\<lambda>p. r_status (snd p) = Failed \<or> r_status (snd p) = TimedOut) (test_ends evs))"
proof (induction evs rule: rev_induct)
  case Nil
  show ?case by (simp add: collect_def)
next
  case (snoc e evs)
  obtain tr st where c: "collect u evs = (tr, st)" by (cases "collect u evs")
  show ?case using snoc c
    by (cases e) (auto simp: collect_snoc onTestEnd_def Let_def test_ends_append split: prod.splits)
qed

section \<open>The exit signal\<close>

text \<open>
  Claim C1. When \<open>onEnd\<close> returns, the exit code is 0 if and only if the test count is
  positive, the failure list is empty, no setup or teardown error was reported and no
  attempt ended interrupted; otherwise it is 1. The configuration, the collaborators, the
  environment and the templates do not enter: any two runs of \<open>onEnd\<close> on the same
  events that return leave the same exit code, whatever the channels did.
\<close>

theorem exit_signal_decision:
  assumes "onEnd cfg u c env tpl (snd (collect u evs)) w0 = (tr, w, Inr ())"
  shows "exitCode w =
           Some (if 0 < p_testCount (processTestResults u (testRecords (snd (collect u evs))))
                    \<and> p_failures (processTestResults u (testRecords (snd (collect u evs)))) = []
                    \<and> setup_errors evs = []
                    \<and> \<not> (\<exists>p \<in> set (test_ends evs). r_status (snd p) = Interrupted)
                 then 0 else 1)
         \<and> (\<forall>cfg' c' env' tpl' w0' tr' w'.
               onEnd cfg' u c' env' tpl' (snd (collect u evs)) w0' = (tr', w', Inr ()) \<longrightarrow> exitCode w' = exitCode w)"
proof -
  let ?st = "snd (collect u evs)"
  let ?code = "Some (if 0 < p_testCount (processTestResults u (testRecords ?st))
                    \<and> p_failures (processTestResults u (testRecords ?st)) = []
                    \<and> setup_errors evs = []
                    \<and> \<not> (\<exists>p \<in> set (test_ends evs). r_status (snd p) = Interrupted)
                 then 0 else (1::int))"
  have gen: "exitCode w' = ?code"
    if "onEnd cfg' u c' env' tpl' ?st w0' = (tr', w', Inr ())" for cfg' c' env' tpl' w0' tr' w'
  proof (cases "p_testCount (processTestResults u (testRecords ?st)) = 0")
    case True
    then show ?thesis using that by (auto simp: onEnd_zero)
  next
    case False
    from that have "exitCode w' = Some (if hasErrors u ?st then 1 else 0)"
      unfolding onEnd_nonzero [OF False] Let_def
      by (auto split: sum.splits)
    moreover have "hasErrors u ?st =
        (p_failures (processTestResults u (testRecords ?st)) \<noteq> [] \<or> setup_errors evs \<noteq> []
          \<or> (\<exists>p \<in> set (test_ends evs). r_status (snd p) = Interrupted))"
      by (simp only: hasErrors_def collect_errors collect_interrupted)
    ultimately show ?thesis using False by simp
  qed
  show ?thesis using gen [OF assms] gen by metis
qed

text \<open>
  A run of one passing test with every channel enabled returns and exits with 0; the same
  configuration on a passing test beside an interrupted one exits with 1.
\<close>

theorem exit_signal_decision_witness:
  "snd (snd (onEnd ex_cfg ex_utils ex_collab ex_env ex_tpl (snd (collect ex_utils ex_all_pass)) fresh)) = Inr ()
   \<and> exitCode (fst (snd (onEnd ex_cfg ex_utils ex_collab ex_env ex_tpl (snd (collect ex_utils ex_all_pass)) fresh))) = Some 0
   \<and> snd (snd (onEnd ex_cfg ex_utils ex_collab ex_env ex_tpl (snd (collect ex_utils ex_interrupted)) fresh)) = Inr ()
   \<and> exitCode (fst (snd (onEnd ex_cfg ex_utils ex_collab ex_env ex_tpl (snd (collect ex_utils ex_interrupted)) fresh))) = Some 1"
proof -
  let ?r = "onEnd ex_cfg ex_utils ex_collab ex_env ex_tpl (snd (collect ex_utils ex_all_pass)) fresh"
  let ?q = "onEnd ex_cfg ex_utils ex_collab ex_env ex_tpl (snd (collect ex_utils ex_interrupted)) fresh"
  have r: "snd (snd ?r) = Inr ()" by code_simp
  have q: "snd (snd ?q) = Inr ()" by code_simp
  have hr: "?r = (fst ?r, fst (snd ?r), Inr ())" using r by (simp add: prod_eq_iff)
  have hq: "?q = (fst ?q, fst (snd ?q), Inr ())" using q by (simp add: prod_eq_iff)
  have cr: "(0 < p_testCount (processTestResults ex_utils (testRecords (snd (collect ex_utils ex_all_pass))))
       \<and> p_failures (processTestResults ex_utils (testRecords (snd (collect ex_utils ex_all_pass)))) = []
       \<and> setup_errors ex_all_pass = []
       \<and> \<not> (\<exists>p \<in> set (test_ends ex_all_pass). r_status (snd p) = Interrupted)) = True"
    by code_simp
  have cq: "(0 < p_testCount (processTestResults ex_utils (testRecords (snd (collect ex_utils ex_interrupted))))
       \<and> p_failures (processTestResults ex_utils (testRecords (snd (collect ex_utils ex_interrupted)))) = []
       \<and> setup_errors ex_interrupted = []
       \<and> \<not> (\<exists>p \<in> set (test_ends ex_interrupted). r_status (snd p) = Interrupted)) = False"
    by code_simp
  from exit_signal_decision [OF hr] have "exitCode (fst (snd ?r)) = Some 0"
    by (simp only: cr if_True)
  moreover from exit_signal_decision [OF hq] have "exitCode (fst (snd ?q)) = Some 1"
    by (simp only: cq if_False)
  ultimately show ?thesis using r q by simp
qed

section \<open>No tests\<close>

text \<open>
  Claim C3. When the test count is zero, \<open>onEnd\<close> reports that no tests were found, sets
  the exit code 1 and returns: the notice is the only action, so no call of the fix, pull
  request, bug, database or notification channel is made, whatever the configuration.
\<close>

theorem no_tests_discovered:
  assumes "p_testCount (processTestResults u (testRecords st)) = 0"
  shows "onEnd cfg u c env tpl st w = ([NoTestsFound], w\<lparr>exitCode := Some 1\<rparr>, Inr ())"
  using assms by (rule onEnd_zero)

theorem no_tests_discovered_witness:
  "p_testCount (processTestResults ex_utils (testRecords (snd (collect ex_utils [])))) = 0
   \<and> onEnd ex_cfg ex_utils ex_collab ex_env ex_tpl (snd (collect ex_utils [])) fresh
       = ([NoTestsFound], fresh\<lparr>exitCode := Some 1\<rparr>, Inr ())"
proof -
  have h: "p_testCount (processTestResults ex_utils (testRecords (snd (collect ex_utils [])))) = 0"
    by code_simp
  from no_tests_discovered [OF h] h show ?thesis by simp
qed

section \<open>The counts of the summary\<close>

text \<open>
  Claim C4. In the summary that \<open>onEnd\<close> builds, the passed, failed and skipped counts
  add up to the test count: the failed count is computed as the test count minus the
  other two.
\<close>

theorem summary_counts_add_up:
  "int (s_passedCount (summary_of cfg u env st)) + s_failedCount (summary_of cfg u env st)
     + int (s_skippedCount (summary_of cfg u env st)) = int (s_testCount (summary_of cfg u env st))"
  by (simp add: summary_of_def Let_def)

theorem summary_counts_add_up_witness:
  "s_passedCount (summary_of ex_cfg ex_utils ex_env (snd (collect ex_utils ex_retry))) = 1
   \<and> s_failedCount (summary_of ex_cfg ex_utils ex_env (snd (collect ex_utils ex_retry))) = 1
   \<and> s_skippedCount (summary_of ex_cfg ex_utils ex_env (snd (collect ex_utils ex_retry))) = 0
   \<and> s_testCount (summary_of ex_cfg ex_utils ex_env (snd (collect ex_utils ex_retry))) = 2"
proof -
  let ?s = "summary_of ex_cfg ex_utils ex_env (snd (collect ex_utils ex_retry))"
  have p: "s_passedCount ?s = 1" by code_simp
  have k: "s_skippedCount ?s = 0" by code_simp
  have n: "s_testCount ?s = 2" by code_simp
  from summary_counts_add_up [of ex_cfg ex_utils ex_env "snd (collect ex_utils ex_retry)"]
  have "s_failedCount ?s = 1" by (simp add: p k n)
  then show ?thesis using p k n by simp
qed

section \<open>The key of the record store\<close>

text \<open>
  Claim C5 says that two attempt-end events go to the same record if and only if they
  share the suite path and the title, so that tests of one title in different suites have
  distinct records. \<open>onTestEnd\<close> looks the record up under \<open>test.title\<close> alone. Two tests
  titled \<open>t\<close>, one in suite \<open>A\<close> and one in suite \<open>B\<close>, differ in the identity of the
  specification and leave one record, which carries the details of the first test and
  both attempts.
\<close>

theorem same_title_shares_record:
  "identity_spec (ex_test ''A'' ''t'') \<noteq> identity_spec (ex_test ''B'' ''t'')
   \<and> testRecords (snd (collect ex_utils
         [TestEnd (ex_test ''A'' ''t'') (ex_result Failed ''boom''),
          TestEnd (ex_test ''B'' ''t'') (ex_result Passed [])])) =
       [(''t'', \<lparr>test = testCaseDetails ex_utils (ex_test ''A'' ''t''),
                attempts = [attempt_of (ex_result Failed ''boom''), attempt_of (ex_result Passed [])]\<rparr>)]"
  by code_simp

text \<open>
  Claim C5, amended. The key is the title. After any sequence of events the store holds
  one record for each title under which a test ended, and no other; the record carries the
  details of the first test that ended under the title and the attempts of all test ends
  under that title, in the order of the events. So two attempt-end events go to the same
  record if and only if their tests have the same title.
\<close>

theorem records_keyed_by_title:
  "distinct (map fst (testRecords (snd (collect u evs))))
   \<and> (\<forall>k. Map_get (testRecords (snd (collect u evs))) k = record_of u (titled k evs))"
  by (simp add: distinct_collect Map_get_def store_of_collect)

theorem records_keyed_by_title_witness:
  "Map_get (testRecords (snd (collect ex_utils ex_retry))) ''t'' =
     Some \<lparr>test = testCaseDetails ex_utils (ex_test ''A'' ''t''),
           attempts = [attempt_of (ex_result Failed ''boom''), attempt_of (ex_result Passed [])]\<rparr>
   \<and> Map_get (testRecords (snd (collect ex_utils ex_retry))) ''u'' =
     Some \<lparr>test = testCaseDetails ex_utils (ex_test ''A'' ''u''),
           attempts = [attempt_of (ex_result Failed ''late'')]\<rparr>
   \<and> Map_get (testRecords (snd (collect ex_utils ex_retry))) ''v'' = None"
proof -
  have t: "record_of ex_utils (titled ''t'' ex_retry) =
     Some \<lparr>test = testCaseDetails ex_utils (ex_test ''A'' ''t''),
           attempts = [attempt_of (ex_result Failed ''boom''), attempt_of (ex_result Passed [])]\<rparr>"
    by code_simp
  have u: "record_of ex_utils (titled ''u'' ex_retry) =
     Some \<lparr>test = testCaseDetails ex_utils (ex_test ''A'' ''u''),
           attempts = [attempt_of (ex_result Failed ''late'')]\<rparr>"
    by code_simp
  have v: "record_of ex_utils (titled ''v'' ex_retry) = None"
    by code_simp
  from records_keyed_by_title [of ex_utils ex_retry] show ?thesis
    by (simp only: t u v)
qed

section \<open>The failure list\<close>

text \<open>
  Claim C6 says that the failure list holds exactly one Failure for each test identity
  whose final attempt failed or timed out, and none for a test that fails first and passes
  last. The list is derived from the store, and the store is keyed by the title (C5). The
  test \<open>t\<close> of suite \<open>A\<close> has one attempt, which failed; the test \<open>t\<close> of suite \<open>B\<close>
  passes afterwards. The store after these two events is the store after a test \<open>t\<close> of
  suite \<open>A\<close> that fails and passes on retry, so no list derived from the store can hold a
  Failure in the first run and none in the second; with the failures derived as the
  specification describes, the list is empty in both.
\<close>

theorem failing_test_masked_by_namesake:
  "identity_spec (ex_test ''A'' ''t'') \<noteq> identity_spec (ex_test ''B'' ''t'')
   \<and> r_status (ex_result Failed ''boom'') = Failed
   \<and> testRecords (snd (collect ex_utils
         [TestEnd (ex_test ''A'' ''t'') (ex_result Failed ''boom''),
          TestEnd (ex_test ''B'' ''t'') (ex_result Passed [])]))
       = testRecords (snd (collect ex_utils
         [TestEnd (ex_test ''A'' ''t'') (ex_result Failed ''boom''),
          TestEnd (ex_test ''A'' ''t'') (ex_result Passed [])]))
   \<and> p_failures (processTestResults_spec (categorizeError ex_utils)
        (testRecords (snd (collect ex_utils
           [TestEnd (ex_test ''A'' ''t'') (ex_result Failed ''boom''),
            TestEnd (ex_test ''B'' ''t'') (ex_result Passed [])])))) = []"
  by code_simp

text \<open>
  Claim C6, amended. With the failures derived as the specification describes, the failure
  list holds exactly one Failure for each title whose last test end, among those under
  that title, failed or timed out, and none for any other title; the message and the stack
  of each Failure are those of that last test end. A title whose test fails first and
  passes last contributes no Failure to this list. Apart from this list, \<open>onTestEnd\<close>
  hands one failure to the file handler for every attempt that failed or timed out, at
  the time of the attempt, whether or not a later attempt passes.
\<close>

theorem failures_from_final_attempts:
  "distinct (map f_testTitle (p_failures (processTestResults_spec cat (testRecords (snd (collect u evs))))))
   \<and> (\<forall>k. (k \<in> set (map f_testTitle (p_failures (processTestResults_spec cat (testRecords (snd (collect u evs)))))))
          = final_failing (titled k evs))
   \<and> (\<forall>f \<in> set (p_failures (processTestResults_spec cat (testRecords (snd (collect u evs))))).
          f_errorMessage f = final_message (snd (last (titled (f_testTitle f) evs)))
        \<and> f_errorStack f = final_stack (snd (last (titled (f_testTitle f) evs))))
   \<and> fst (collect u evs) =
       map (\<lambda>p. AddFailure (attempt_failure u (fst p) (snd p)))
         (filter (\<lambda>p. r_status (snd p) = Failed \<or> r_status (snd p) = TimedOut) (test_ends evs))"
proof (intro conjI allI ballI)
  show "distinct (map f_testTitle (p_failures (processTestResults_spec cat (testRecords (snd (collect u evs))))))"
    unfolding failure_titles using distinct_collect [of u evs] by (rule distinct_filter)
next
  fix k
  show "(k \<in> set (map f_testTitle (p_failures (processTestResults_spec cat (testRecords (snd (collect u evs))))))) =
         final_failing (titled k evs)"
    unfolding failure_titles using key_iff [of k u evs] by (auto simp: final_failing_def)
next
  fix f
  assume "f \<in> set (p_failures (processTestResults_spec cat (testRecords (snd (collect u evs)))))"
  then obtain k r where kr: "(k, r) \<in> set (testRecords (snd (collect u evs)))"
      and f: "f \<in> set (failures_of_record cat r)"
    by (auto simp: processTestResults_spec_def)
  from failures_of_entry(1) [OF kr, where cat = cat] failures_of_entry(2) [OF kr] f
  have feq: "f = failure_of_final cat r (attempt_of (snd (last (titled k evs))))" and t: "d_testTitle (test r) = k"
    by (auto split: if_splits)
  have "f_testTitle f = k" using feq t by (simp add: failure_fields)
  then show "f_errorMessage f = final_message (snd (last (titled (f_testTitle f) evs)))"
    and "f_errorStack f = final_stack (snd (last (titled (f_testTitle f) evs)))"
    using feq by (simp_all add: failure_fields)
next
  show "fst (collect u evs) =
       map (\<lambda>p. AddFailure (attempt_failure u (fst p) (snd p)))
         (filter (\<lambda>p. r_status (snd p) = Failed \<or> r_status (snd p) = TimedOut) (test_ends evs))"
    by (rule collect_actions)
qed

text \<open>
  In the run \<open>ex_retry\<close> the title \<open>t\<close> fails and then passes, and the title \<open>u\<close> fails:
  the list is the one Failure of \<open>u\<close>, with the message of its last attempt, while the
  file handler was handed the failing attempt of \<open>t\<close> and that of \<open>u\<close>.
\<close>

theorem failures_from_final_attempts_witness:
  "map f_testTitle (p_failures (processTestResults_spec (categorizeError ex_utils)
        (testRecords (snd (collect ex_utils ex_retry))))) = [''u'']
   \<and> map f_errorMessage (p_failures (processTestResults_spec (categorizeError ex_utils)
        (testRecords (snd (collect ex_utils ex_retry))))) = [''late'']
   \<and> final_failing (titled ''u'' ex_retry) \<and> \<not> final_failing (titled ''t'' ex_retry)
   \<and> fst (collect ex_utils ex_retry) =
       [AddFailure (attempt_failure ex_utils (ex_test ''A'' ''t'') (ex_result Failed ''boom'')),
        AddFailure (attempt_failure ex_utils (ex_test ''A'' ''u'') (ex_result Failed ''late''))]"
proof -
  let ?fl = "p_failures (processTestResults_spec (categorizeError ex_utils) (testRecords (snd (collect ex_utils ex_retry))))"
  have len: "length ?fl = 1" by code_simp
  have u: "final_failing (titled ''u'' ex_retry)" by code_simp
  have t: "\<not> final_failing (titled ''t'' ex_retry)" by code_simp
  have m: "final_message (snd (last (titled ''u'' ex_retry))) = ''late''" by code_simp
  note inst = failures_from_final_attempts [of "categorizeError ex_utils" ex_utils ex_retry]
  from len obtain f where fl: "?fl = [f]" by (cases ?fl) auto
  from inst u have "''u'' \<in> set (map f_testTitle ?fl)" by blast
  then have ft: "f_testTitle f = ''u''" using fl by simp
  from inst have "f_errorMessage f = final_message (snd (last (titled (f_testTitle f) ex_retry)))"
    using fl by simp
  then have fm: "f_errorMessage f = ''late''" using ft m by simp
  have te: "map (\<lambda>p. AddFailure (attempt_failure ex_utils (fst p) (snd p)))
         (filter (\<lambda>p. r_status (snd p) = Failed \<or> r_status (snd p) = TimedOut) (test_ends ex_retry)) =
       [AddFailure (attempt_failure ex_utils (ex_test ''A'' ''t'') (ex_result Failed ''boom'')),
        AddFailure (attempt_failure ex_utils (ex_test ''A'' ''u'') (ex_result Failed ''late''))]"
    by code_simp
  from inst have "fst (collect ex_utils ex_retry) =
       [AddFailure (attempt_failure ex_utils (ex_test ''A'' ''t'') (ex_result Failed ''boom'')),
        AddFailure (attempt_failure ex_utils (ex_test ''A'' ''u'') (ex_result Failed ''late''))]"
    by (simp only: te)
  then show ?thesis using fl ft fm u t by simp
qed

section \<open>The last-run status\<close>

lemma rank_last_run_ok: "rank a \<noteq> 5 \<Longrightarrow> last_run_ok d a"
  by (cases a) simp_all

lemma emits_last_run: "emits (last_run_ok (lastRunData st b)) (saveLastRunStatus cfg c tpl st b)"
  unfolding saveLastRunStatus_def by auto

lemma emits_fixStage: "emits (\<lambda>a. rank a = 0) (fixStage cfg c env tpl failures)"
  using emits_generateFixSuggestions [of cfg c env tpl failures] by (simp add: fixStage_def emits_return)

lemma emits_bugStage: "emits (\<lambda>a. rank a = 1) (bugStage cfg c tpl failures)"
  using emits_createBugs [of c tpl failures] by (simp add: bugStage_def emits_return)

lemma emits_dbStage: "emits (\<lambda>a. rank a = 3) (dbStage cfg c env summary cases failures)"
  using emits_publish [of c env summary cases failures] by (simp add: dbStage_def emits_return)

lemma emits_mailStage: "emits (\<lambda>a. rank a = 4) (mailStage cfg c env tpl summary failures)"
  using emits_sendEmail [of c env tpl summary failures] by (simp add: mailStage_def emits_return)

lemma emitsD: "emits P m \<Longrightarrow> a \<in> set (fst (m w)) \<Longrightarrow> P a"
  by (auto simp: emits_def)

lemma onEnd_last_run:
  assumes "a \<in> set (fst (onEnd cfg u c env tpl st w))"
  shows "last_run_ok (lastRunData st (p_failures (processTestResults u (testRecords st)) \<noteq> [])) a"
proof (cases "p_testCount (processTestResults u (testRecords st)) = 0")
  case True
  then show ?thesis using assms by (simp add: onEnd_zero)
next
  case False
  let ?failures = "p_failures (processTestResults u (testRecords st))"
  let ?d = "lastRunData st (?failures \<noteq> [])"
  from assms consider
      "a \<in> set (fst (fixStage cfg c env tpl ?failures w))"
    | "a \<in> set (fst (bugStage cfg c tpl ?failures fresh))"
    | "a = WriteSummary (summary_of cfg u env st) (allTestCases st)"
    | "a \<in> set (fst (dbStage cfg c env (summary_of cfg u env st) (allTestCases st) ?failures fresh))"
    | "a \<in> set (fst (mailStage cfg c env tpl (summary_of cfg u env st) ?failures fresh))"
    | "a \<in> set (fst (saveLastRunStatus cfg c tpl st (?failures \<noteq> []) fresh))"
    unfolding onEnd_nonzero [OF False] Let_def by (auto split: sum.splits)
  then show ?thesis
  proof cases
    case 1
    from emitsD [OF emits_fixStage 1] show ?thesis by (simp add: rank_last_run_ok)
  next
    case 2
    from emitsD [OF emits_bugStage 2] show ?thesis by (simp add: rank_last_run_ok)
  next
    case 3
    then show ?thesis by simp
  next
    case 4
    from emitsD [OF emits_dbStage 4] show ?thesis by (simp add: rank_last_run_ok)
  next
    case 5
    from emitsD [OF emits_mailStage 5] show ?thesis by (simp add: rank_last_run_ok)
  next
    case 6
    from emitsD [OF emits_last_run 6] show ?thesis .
  qed
qed

lemma saveLastRun_writes:
  assumes "existsSync (fileSystem c) (outputDir cfg) \<or> mkdirSync (fileSystem c) (outputDir cfg) = Inr ()"
  shows "WriteLastRun (lastRunPath tpl (outputDir cfg)) (lastRunData st b)
           \<in> set (fst (saveLastRunStatus cfg c tpl st b w))"
  using assms
  by (auto simp: saveLastRunStatus_def try_catch_def bind_io_def call_def return_io_def split: sum.splits)

text \<open>
  Claim C10. In a run with a positive test count, every last-run document that \<open>onEnd\<close>
  writes has the status \<open>failed\<close> if and only if the failure list is non-empty; the
  setup errors and the interrupted flag do not enter. The document is written whenever the
  summary was written and the output directory exists or can be made. So when the failure
  list is empty and a setup error was reported or an attempt was interrupted, the exit
  code is 1 and the document records \<open>passed\<close>.
\<close>

theorem last_run_status_from_failures:
  assumes "p_testCount (processTestResults u (testRecords st)) \<noteq> 0"
  shows "(\<forall>path d. WriteLastRun path d \<in> set (fst (onEnd cfg u c env tpl st w)) \<longrightarrow>
            (l_status d = ''failed'') = (p_failures (processTestResults u (testRecords st)) \<noteq> []))
       \<and> (writeSummary (fileSystem c) (summary_of cfg u env st) (allTestCases st) = Inr ()
            \<and> (existsSync (fileSystem c) (outputDir cfg) \<or> mkdirSync (fileSystem c) (outputDir cfg) = Inr ())
          \<longrightarrow> WriteLastRun (lastRunPath tpl (outputDir cfg))
                 (lastRunData st (p_failures (processTestResults u (testRecords st)) \<noteq> []))
               \<in> set (fst (onEnd cfg u c env tpl st w)))
       \<and> (writeSummary (fileSystem c) (summary_of cfg u env st) (allTestCases st) = Inr ()
            \<and> (existsSync (fileSystem c) (outputDir cfg) \<or> mkdirSync (fileSystem c) (outputDir cfg) = Inr ())
            \<and> p_failures (processTestResults u (testRecords st)) = []
            \<and> (nonTestErrors st \<noteq> [] \<or> hasInterruptedTests st)
          \<longrightarrow> exitCode (fst (snd (onEnd cfg u c env tpl st w))) = Some 1
              \<and> WriteLastRun (lastRunPath tpl (outputDir cfg)) (lastRunData st False)
                    \<in> set (fst (onEnd cfg u c env tpl st w))
              \<and> l_status (lastRunData st False) = ''passed'')"
proof (intro conjI allI impI)
  fix path d
  assume "WriteLastRun path d \<in> set (fst (onEnd cfg u c env tpl st w))"
  from onEnd_last_run [OF this]
  have "d = lastRunData st (p_failures (processTestResults u (testRecords st)) \<noteq> [])" by simp
  then show "(l_status d = ''failed'') = (p_failures (processTestResults u (testRecords st)) \<noteq> [])"
    by (simp add: lastRunData_def)
next
  assume h: "writeSummary (fileSystem c) (summary_of cfg u env st) (allTestCases st) = Inr ()
      \<and> (existsSync (fileSystem c) (outputDir cfg) \<or> mkdirSync (fileSystem c) (outputDir cfg) = Inr ())"
  then have "WriteLastRun (lastRunPath tpl (outputDir cfg))
        (lastRunData st (p_failures (processTestResults u (testRecords st)) \<noteq> []))
      \<in> set (fst (saveLastRunStatus cfg c tpl st (p_failures (processTestResults u (testRecords st)) \<noteq> []) fresh))"
    by (intro saveLastRun_writes) simp
  then show "WriteLastRun (lastRunPath tpl (outputDir cfg))
        (lastRunData st (p_failures (processTestResults u (testRecords st)) \<noteq> []))
      \<in> set (fst (onEnd cfg u c env tpl st w))"
    unfolding onEnd_nonzero [OF assms] Let_def using h by simp
next
  assume h: "writeSummary (fileSystem c) (summary_of cfg u env st) (allTestCases st) = Inr ()
      \<and> (existsSync (fileSystem c) (outputDir cfg) \<or> mkdirSync (fileSystem c) (outputDir cfg) = Inr ())
      \<and> p_failures (processTestResults u (testRecords st)) = []
      \<and> (nonTestErrors st \<noteq> [] \<or> hasInterruptedTests st)"
  then have e: "hasErrors u st" by (simp add: hasErrors_def)
  show "exitCode (fst (snd (onEnd cfg u c env tpl st w))) = Some 1"
    unfolding onEnd_nonzero [OF assms] Let_def using h e by simp
  from h have "WriteLastRun (lastRunPath tpl (outputDir cfg)) (lastRunData st False)
      \<in> set (fst (saveLastRunStatus cfg c tpl st False fresh))"
    by (intro saveLastRun_writes) simp
  then show "WriteLastRun (lastRunPath tpl (outputDir cfg)) (lastRunData st False)
      \<in> set (fst (onEnd cfg u c env tpl st w))"
    unfolding onEnd_nonzero [OF assms] Let_def using h by simp
  show "l_status (lastRunData st False) = ''passed''"
    by (simp add: lastRunData_def)
qed

text \<open>
  In the run \<open>ex_interrupted\<close> a test passes and another is interrupted; in the run
  \<open>ex_setup_error\<close> a setup error precedes a passing test. In both the failure list is
  empty, the document is written with the status \<open>passed\<close>, and the exit code is 1.
\<close>

theorem last_run_status_from_failures_witness:
  "p_testCount (processTestResults ex_utils (testRecords (snd (collect ex_utils ex_interrupted)))) \<noteq> 0
   \<and> p_failures (processTestResults ex_utils (testRecords (snd (collect ex_utils ex_interrupted)))) = []
   \<and> hasInterruptedTests (snd (collect ex_utils ex_interrupted))
   \<and> exitCode (fst (snd (onEnd ex_cfg ex_utils ex_collab ex_env ex_tpl (snd (collect ex_utils ex_interrupted)) fresh))) = Some 1
   \<and> WriteLastRun ''out/.last-run.json'' \<lparr>l_status = ''passed'', l_failedTests = []\<rparr>
       \<in> set (fst (onEnd ex_cfg ex_utils ex_collab ex_env ex_tpl (snd (collect ex_utils ex_interrupted)) fresh))
   \<and> p_testCount (processTestResults ex_utils (testRecords (snd (collect ex_utils ex_setup_error)))) \<noteq> 0
   \<and> nonTestErrors (snd (collect ex_utils ex_setup_error)) \<noteq> []
   \<and> exitCode (fst (snd (onEnd ex_cfg ex_utils ex_collab ex_env ex_tpl (snd (collect ex_utils ex_setup_error)) fresh))) = Some 1
   \<and> WriteLastRun ''out/.last-run.json'' \<lparr>l_status = ''passed'', l_failedTests = []\<rparr>
       \<in> set (fst (onEnd ex_cfg ex_utils ex_collab ex_env ex_tpl (snd (collect ex_utils ex_setup_error)) fresh))"
proof -
  let ?si = "snd (collect ex_utils ex_interrupted)"
  let ?se = "snd (collect ex_utils ex_setup_error)"
  have ni: "p_testCount (processTestResults ex_utils (testRecords ?si)) \<noteq> 0" by code_simp
  have ne: "p_testCount (processTestResults ex_utils (testRecords ?se)) \<noteq> 0" by code_simp
  have hi: "writeSummary (fileSystem ex_collab) (summary_of ex_cfg ex_utils ex_env ?si) (allTestCases ?si) = Inr ()
      \<and> (existsSync (fileSystem ex_collab) (outputDir ex_cfg) \<or> mkdirSync (fileSystem ex_collab) (outputDir ex_cfg) = Inr ())
      \<and> p_failures (processTestResults ex_utils (testRecords ?si)) = []
      \<and> (nonTestErrors ?si \<noteq> [] \<or> hasInterruptedTests ?si)"
    by code_simp
  have he: "writeSummary (fileSystem ex_collab) (summary_of ex_cfg ex_utils ex_env ?se) (allTestCases ?se) = Inr ()
      \<and> (existsSync (fileSystem ex_collab) (outputDir ex_cfg) \<or> mkdirSync (fileSystem ex_collab) (outputDir ex_cfg) = Inr ())
      \<and> p_failures (processTestResults ex_utils (testRecords ?se)) = []
      \<and> (nonTestErrors ?se \<noteq> [] \<or> hasInterruptedTests ?se)"
    by code_simp
  have ii: "hasInterruptedTests ?si" by code_simp
  have ee: "nonTestErrors ?se \<noteq> []" by code_simp
  have di: "lastRunData ?si False = \<lparr>l_status = ''passed'', l_failedTests = []\<rparr>" by code_simp
  have de: "lastRunData ?se False = \<lparr>l_status = ''passed'', l_failedTests = []\<rparr>" by code_simp
  have p: "lastRunPath ex_tpl (outputDir ex_cfg) = ''out/.last-run.json''" by code_simp
  from last_run_status_from_failures [OF ni, of ex_cfg ex_collab ex_env ex_tpl fresh] hi
  have ri: "exitCode (fst (snd (onEnd ex_cfg ex_utils ex_collab ex_env ex_tpl ?si fresh))) = Some 1
      \<and> WriteLastRun (lastRunPath ex_tpl (outputDir ex_cfg)) (lastRunData ?si False)
            \<in> set (fst (onEnd ex_cfg ex_utils ex_collab ex_env ex_tpl ?si fresh))"
    by blast
  from last_run_status_from_failures [OF ne, of ex_cfg ex_collab ex_env ex_tpl fresh] he
  have re: "exitCode (fst (snd (onEnd ex_cfg ex_utils ex_collab ex_env ex_tpl ?se fresh))) = Some 1
      \<and> WriteLastRun (lastRunPath ex_tpl (outputDir ex_cfg)) (lastRunData ?se False)
            \<in> set (fst (onEnd ex_cfg ex_utils ex_collab ex_env ex_tpl ?se fresh))"
    by blast
  show ?thesis using ni ne hi ii ee ri re by (simp only: p di de simp_thms)
qed

section \<open>The notification channel\<close>

lemma fifth_of_count: "((of_nat k :: rat) > of_nat n * (2 / 10)) = (n < 5 * k)"
proof -
  have "((of_nat k :: rat) > of_nat n * (2 / 10)) = ((of_nat n :: rat) < of_nat (5 * k))"
    by (simp add: field_simps)
  also have "\<dots> = (n < 5 * k)" by (simp only: of_nat_less_iff)
  finally show ?thesis .
qed

text \<open>
  Claim C8 says that with a non-empty recipient list the channel sends the summary and,
  if and only if the failure list is non-empty, the failures. The two sends are in one
  \<open>try\<close> block: when the summary send throws, the failures are not sent although the list
  is non-empty. Here the channel is enabled, the provider is configured and resolves,
  there are two recipients and one failure, and the summary send throws.
\<close>

theorem summary_throw_skips_failures:
  "sendEmail ex_cfg
   \<and> NOTIFICATION_PROVIDER ex_env = Some ''email''
   \<and> getNotificationProvider (notifier ex_collab_summary_throws) = Inr ()
   \<and> recipients ex_env = [''dev@example.com'', ''qa@example.com'']
   \<and> p_failures (processTestResults ex_utils (testRecords (snd (collect ex_utils ex_retry)))) \<noteq> []
   \<and> fst (sendEmailNotification ex_collab_summary_throws ex_env ex_tpl
            (summary_of ex_cfg ex_utils ex_env (snd (collect ex_utils ex_retry)))
            (p_failures (processTestResults ex_utils (testRecords (snd (collect ex_utils ex_retry)))))
            fresh) =
       [GetNotificationProvider,
        SendTestSummary (summary_of ex_cfg ex_utils ex_env (snd (collect ex_utils ex_retry)))
          \<lparr>n_recipients = [''dev@example.com'', ''qa@example.com''], n_severity = SevError,
           n_subject = ''summary''\<rparr>]"
  by code_simp

text \<open>
  Claim C8, amended. When the notification provider is configured and resolves: with an
  empty recipient list nothing is sent; otherwise the summary is sent exactly once, and the
  failures are sent after it if and only if the failure list is non-empty and the summary
  send did not throw (an unsuccessful result does not prevent it). The severity of the
  summary is Error if the failed count of the summary is positive, else Warning if the
  skipped count exceeds a fifth of the test count, else Info.
\<close>

theorem notification_sends:
  assumes "\<not> falsy (NOTIFICATION_PROVIDER env)"
    and "getNotificationProvider (notifier c) = Inr ()"
  shows "fst (sendEmailNotification c env tpl summary failures w) =
           (if recipients env = [] then [GetNotificationProvider]
            else [GetNotificationProvider,
                  SendTestSummary summary
                    \<lparr>n_recipients = recipients env, n_severity = severity summary,
                     n_subject = summarySubject tpl summary\<rparr>] @
                 (if failures \<noteq> [] \<and> \<not> isl (sendTestSummary (notifier c) summary
                       \<lparr>n_recipients = recipients env, n_severity = severity summary,
                        n_subject = summarySubject tpl summary\<rparr>)
                  then [SendTestFailures failures
                          \<lparr>n_recipients = recipients env, n_severity = SevError,
                           n_subject = failuresSubject tpl failures\<rparr>]
                  else []))
         \<and> severity summary =
             (if 0 < s_failedCount summary then SevError
              else if s_testCount summary < 5 * s_skippedCount summary then Warning
              else Info)"
proof
  show "fst (sendEmailNotification c env tpl summary failures w) =
           (if recipients env = [] then [GetNotificationProvider]
            else [GetNotificationProvider,
                  SendTestSummary summary
                    \<lparr>n_recipients = recipients env, n_severity = severity summary,
                     n_subject = summarySubject tpl summary\<rparr>] @
                 (if failures \<noteq> [] \<and> \<not> isl (sendTestSummary (notifier c) summary
                       \<lparr>n_recipients = recipients env, n_severity = severity summary,
                        n_subject = summarySubject tpl summary\<rparr>)
                  then [SendTestFailures failures
                          \<lparr>n_recipients = recipients env, n_severity = SevError,
                           n_subject = failuresSubject tpl failures\<rparr>]
                  else []))"
    using assms
    by (auto simp: sendEmailNotification_def try_catch_def bind_io_def call_def return_io_def
        split: sum.splits prod.splits)
next
  show "severity summary =
             (if 0 < s_failedCount summary then SevError
              else if s_testCount summary < 5 * s_skippedCount summary then Warning
              else Info)"
    by (simp only: severity_def fifth_of_count)
qed

text \<open>
  With the collaborators that answer every call, the run \<open>ex_retry\<close> sends the summary
  with severity Error and then the failures.
\<close>

theorem notification_sends_witness:
  "\<not> falsy (NOTIFICATION_PROVIDER ex_env)
   \<and> getNotificationProvider (notifier ex_collab) = Inr ()
   \<and> fst (sendEmailNotification ex_collab ex_env ex_tpl
            (summary_of ex_cfg ex_utils ex_env (snd (collect ex_utils ex_retry)))
            (p_failures (processTestResults ex_utils (testRecords (snd (collect ex_utils ex_retry)))))
            fresh) =
       [GetNotificationProvider,
        SendTestSummary (summary_of ex_cfg ex_utils ex_env (snd (collect ex_utils ex_retry)))
          \<lparr>n_recipients = [''dev@example.com'', ''qa@example.com''], n_severity = SevError,
           n_subject = ''summary''\<rparr>,
        SendTestFailures (p_failures (processTestResults ex_utils (testRecords (snd (collect ex_utils ex_retry)))))
          \<lparr>n_recipients = [''dev@example.com'', ''qa@example.com''], n_severity = SevError,
           n_subject = ''failures''\<rparr>]"
proof -
  let ?s = "summary_of ex_cfg ex_utils ex_env (snd (collect ex_utils ex_retry))"
  let ?fl = "p_failures (processTestResults ex_utils (testRecords (snd (collect ex_utils ex_retry))))"
  have a: "\<not> falsy (NOTIFICATION_PROVIDER ex_env)" by code_simp
  have b: "getNotificationProvider (notifier ex_collab) = Inr ()" by code_simp
  have r: "recipients ex_env = [''dev@example.com'', ''qa@example.com'']" by code_simp
  have sv: "severity ?s = SevError" by code_simp
  have sj: "summarySubject ex_tpl ?s = ''summary''" by code_simp
  have fj: "failuresSubject ex_tpl ?fl = ''failures''" by code_simp
  have ne: "?fl \<noteq> []" by code_simp
  have ok: "\<not> isl (sendTestSummary (notifier ex_collab) ?s
        \<lparr>n_recipients = [''dev@example.com'', ''qa@example.com''], n_severity = SevError, n_subject = ''summary''\<rparr>)"
    by code_simp
  from notification_sends [OF a b, of ex_tpl ?s ?fl fresh] show ?thesis
    using a b ne ok by (simp add: r sv sj fj)
qed

section \<open>Pull-request automation after a failed AI call\<close>

text \<open>
  Claim C9 says that the pull-request automation runs for a failure if and only if
  \<open>generatePR\<close> is enabled and the fix suggestion for that failure just succeeded. The
  reporter tests the result of \<open>generateFixSuggestion\<close>, and \<open>callGenAISuggestion\<close> turns
  an error of the AI provider into the returned text. With \<open>generatePR\<close> enabled and an AI
  provider that throws on the completion, the error text is written as the fix, the result
  is not null, and the automation creates the branch, commits the error text as the
  content of the test file and opens the pull request.
\<close>

theorem pr_after_failed_ai_call:
  "generatePR ex_cfg
   \<and> generateCompletion (aiProvider ex_collab_ai_throws) ''prompt'' = Inl (Error ''401'')
   \<and> snd (snd (generateFixSuggestion ex_collab_ai_throws ex_tpl ex_failure fresh))
       = Inr (Some (''prompts/A/u'', ''fixes/A/u''))
   \<and> fst (fixOneFailure ex_cfg ex_collab_ai_throws ex_env ex_tpl ex_failure fresh) =
       [ReadFile ''A.spec.ts'', MkDir ''prompts'', MkDir ''fixes'',
        WriteFile ''prompts/A/u'' ''prompt'', GetAIProvider, GenerateCompletion ''prompt'',
        WriteFile ''fixes/A/u'' ''Error retrieving suggestion from AI provider: 401'',
        GetPRProvider, ReadFix ''fixes/A/u'',
        CreateBranch ''autofix/u-2025-01-02T03-04-05'' ''main'',
        CommitChanges ''autofix/u-2025-01-02T03-04-05''
          [\<lparr>fc_path = ''A.spec.ts'',
            fc_content = ''Error retrieving suggestion from AI provider: 401'',
            fc_action = Modify\<rparr>]
          ''fix'',
        CreatePullRequest
          \<lparr>pr_sourceBranch = ''autofix/u-2025-01-02T03-04-05'', pr_targetBranch = ''main'',
           pr_title = ''Auto-fix: u'', pr_description = ''description'',
           pr_labels = [''auto-fix'', ''test-failure'', ''ai-generated''], pr_draft = True\<rparr>]"
  by code_simp

section \<open>Isolation of the bug channel\<close>

lemma for_each_calls:
  assumes "\<And>x w. body x w = ([g x], w, Inr ())"
  shows "for_each xs body w = (map g xs, w, Inr ())"
proof (induction xs)
  case Nil
  show ?case by (simp add: return_io_def)
next
  case (Cons x xs)
  show ?case using Cons.IH assms [of x w] by (simp add: bind_io_def)
qed

lemma bug_loop:
  "for_each failures (\<lambda>failure.
       try_catch
         (bind_io (call (CreateBug (bugDetails tpl failure)) (createBug (bugTracker c) (bugDetails tpl failure)))
            (\<lambda>bugInfo. return_io ()))
         (\<lambda>error. return_io ())) w
     = (map (\<lambda>f. CreateBug (bugDetails tpl f)) failures, w, Inr ())"
  by (rule for_each_calls)
     (simp add: try_catch_def bind_io_def call_def return_io_def split: sum.splits)

lemma guarded_call:
  assumes "\<And>x w. k x w = (T, w, Inr ())"
  shows "try_catch (bind_io (call a outcome) k) (\<lambda>e. return_io ()) w =
           (case outcome of Inl e \<Rightarrow> [a] | Inr _ \<Rightarrow> a # T, w, Inr ())"
  by (cases outcome) (simp_all add: try_catch_def bind_io_def call_def return_io_def assms)

lemma bug_trace:
  "createBugsForFailures c tpl failures w =
     (case getBugTrackerProvider (bugTracker c) of
        Inl e \<Rightarrow> [GetBugTrackerProvider]
      | Inr _ \<Rightarrow> GetBugTrackerProvider # map (\<lambda>f. CreateBug (bugDetails tpl f)) failures,
      w, Inr ())"
  unfolding createBugsForFailures_def
  by (rule guarded_call) (rule bug_loop)

lemma fixOneFailure_cfg: "fixOneFailure (cfg\<lparr>createBug_enabled := b\<rparr>) c env tpl = fixOneFailure cfg c env tpl"
  by (rule ext) (simp add: fixOneFailure_def)

lemma stages_cfg:
  "fixStage (cfg\<lparr>createBug_enabled := b\<rparr>) c env tpl failures = fixStage cfg c env tpl failures"
  "dbStage (cfg\<lparr>createBug_enabled := b\<rparr>) c env summary cases failures = dbStage cfg c env summary cases failures"
  "mailStage (cfg\<lparr>createBug_enabled := b\<rparr>) c env tpl summary failures = mailStage cfg c env tpl summary failures"
  "saveLastRunStatus (cfg\<lparr>createBug_enabled := b\<rparr>) c tpl st hf = saveLastRunStatus cfg c tpl st hf"
  "summary_of (cfg\<lparr>createBug_enabled := b\<rparr>) u env st = summary_of cfg u env st"
  "bugStage (cfg\<lparr>createBug_enabled := False\<rparr>) c tpl failures = return_io ()"
  by (simp_all add: fixStage_def generateFixSuggestions_def fixOneFailure_cfg dbStage_def mailStage_def
       saveLastRunStatus_def summary_of_def bugStage_def)

lemma filter_keep: "emits (\<lambda>a. rank a = k) m \<Longrightarrow> k \<noteq> 1 \<Longrightarrow> filter (\<lambda>a. rank a \<noteq> 1) (fst (m w)) = fst (m w)"
  by (auto simp: emits_def filter_id_conv)

lemma filter_drop: "emits (\<lambda>a. rank a = 1) m \<Longrightarrow> filter (\<lambda>a. rank a \<noteq> 1) (fst (m w)) = []"
  by (auto simp: emits_def filter_empty_conv)

lemma onEnd_without_bugs:
  "onEnd (cfg\<lparr>createBug_enabled := False\<rparr>) u c env tpl st w =
     (filter (\<lambda>a. rank a \<noteq> 1) (fst (onEnd cfg u c env tpl st w)),
      fst (snd (onEnd cfg u c env tpl st w)),
      snd (snd (onEnd cfg u c env tpl st w)))"
proof (cases "p_testCount (processTestResults u (testRecords st)) = 0")
  case True
  then show ?thesis by (simp add: onEnd_zero)
next
  case False
  let ?fl = "p_failures (processTestResults u (testRecords st))"
  let ?s = "summary_of cfg u env st"
  have k0: "filter (\<lambda>a. rank a \<noteq> 1) (fst (fixStage cfg c env tpl ?fl w)) = fst (fixStage cfg c env tpl ?fl w)"
    by (rule filter_keep [OF emits_fixStage]) simp
  have k1: "filter (\<lambda>a. rank a \<noteq> 1) (fst (bugStage cfg c tpl ?fl fresh)) = []"
    by (rule filter_drop [OF emits_bugStage])
  have k3: "filter (\<lambda>a. rank a \<noteq> 1) (fst (dbStage cfg c env ?s (allTestCases st) ?fl fresh))
      = fst (dbStage cfg c env ?s (allTestCases st) ?fl fresh)"
    by (rule filter_keep [OF emits_dbStage]) simp
  have k4: "filter (\<lambda>a. rank a \<noteq> 1) (fst (mailStage cfg c env tpl ?s ?fl fresh))
      = fst (mailStage cfg c env tpl ?s ?fl fresh)"
    by (rule filter_keep [OF emits_mailStage]) simp
  have k5: "filter (\<lambda>a. rank a \<noteq> 1) (fst (saveLastRunStatus cfg c tpl st (?fl \<noteq> []) fresh))
      = fst (saveLastRunStatus cfg c tpl st (?fl \<noteq> []) fresh)"
    by (rule filter_keep [OF emits_saveLastRun]) simp
  have F: "p_testCount (processTestResults u (testRecords st)) \<noteq> 0" by (rule False)
  show ?thesis
    unfolding onEnd_nonzero [OF F, of cfg] onEnd_nonzero [OF F, of "cfg\<lparr>createBug_enabled := False\<rparr>"]
    by (simp add: Let_def stages_cfg k0 k1 k3 k4 k5 return_io_def del: One_nat_def split: sum.splits)
qed

text \<open>
  Claim C2. Whatever the bug tracker does on a call of \<open>createBug\<close>, in particular when it
  throws on every call, the bug channel asks for every failure in turn, leaves the world as
  it found it and returns. A run of \<open>onEnd\<close> with the bug channel disabled is the run with
  the channel enabled with the calls of the bug channel erased: the calls of the database
  channel, of the notification channel and of the last-run status are the same and in the
  same order, and the final world, with the exit code, and the result are the same. The
  other three channels return as well, whatever their collaborators do.
\<close>

theorem channel_failure_absorbed:
  "createBugsForFailures c tpl failures w =
     (case getBugTrackerProvider (bugTracker c) of
        Inl e \<Rightarrow> [GetBugTrackerProvider]
      | Inr _ \<Rightarrow> GetBugTrackerProvider # map (\<lambda>f. CreateBug (bugDetails tpl f)) failures,
      w, Inr ())
   \<and> onEnd (cfg\<lparr>createBug_enabled := False\<rparr>) u c env tpl st w =
       (filter (\<lambda>a. rank a \<noteq> 1) (fst (onEnd cfg u c env tpl st w)),
        fst (snd (onEnd cfg u c env tpl st w)),
        snd (snd (onEnd cfg u c env tpl st w)))
   \<and> snd (snd (generateFixSuggestions cfg c env tpl failures w)) = Inr ()
   \<and> snd (snd (publishToDatabase c env summary cases failures w)) = Inr ()
   \<and> snd (snd (sendEmailNotification c env tpl summary failures w)) = Inr ()"
proof (intro conjI)
  show "snd (snd (generateFixSuggestions cfg c env tpl failures w)) = Inr ()"
    using safe_unit [OF safe_generateFixSuggestions, of cfg c env tpl failures w] by (metis snd_conv)
  show "snd (snd (publishToDatabase c env summary cases failures w)) = Inr ()"
    using safe_unit [OF safe_publish, of c env summary cases failures w] by (metis snd_conv)
  show "snd (snd (sendEmailNotification c env tpl summary failures w)) = Inr ()"
    using safe_unit [OF safe_sendEmail, of c env tpl summary failures w] by (metis snd_conv)
qed (rule bug_trace, rule onEnd_without_bugs)

text \<open>
  With a bug tracker that throws on every call, the run \<open>ex_retry\<close> asks the tracker for
  its one failure, goes on to the five calls of the database channel and the three of the
  notification channel, returns, and exits with 1, as the run without the bug channel
  does.
\<close>

theorem channel_failure_absorbed_witness:
  "createBug (bugTracker ex_collab_bug_throws) (bugDetails ex_tpl ex_failure) = Inl (Error ''tracker down'')
   \<and> createBugsForFailures ex_collab_bug_throws ex_tpl [ex_failure] fresh =
       ([GetBugTrackerProvider, CreateBug (bugDetails ex_tpl ex_failure)], fresh, Inr ())
   \<and> snd (snd (onEnd (ex_cfg\<lparr>createBug_enabled := False\<rparr>) ex_utils ex_collab_bug_throws ex_env ex_tpl
                   (snd (collect ex_utils ex_retry)) fresh)) = Inr ()
   \<and> exitCode (fst (snd (onEnd (ex_cfg\<lparr>createBug_enabled := False\<rparr>) ex_utils ex_collab_bug_throws ex_env ex_tpl
                   (snd (collect ex_utils ex_retry)) fresh))) = Some 1
   \<and> exitCode (fst (snd (onEnd ex_cfg ex_utils ex_collab_bug_throws ex_env ex_tpl
                   (snd (collect ex_utils ex_retry)) fresh))) = Some 1
   \<and> map rank (fst (onEnd ex_cfg ex_utils ex_collab_bug_throws ex_env ex_tpl
                   (snd (collect ex_utils ex_retry)) fresh)) =
       [0, 0, 0, 0, 0, 0, 0, 0, 0, 0, 0, 0, 1, 1, 2, 3, 3, 3, 3, 3, 4, 4, 4, 5]
   \<and> map rank (fst (onEnd (ex_cfg\<lparr>createBug_enabled := False\<rparr>) ex_utils ex_collab_bug_throws ex_env ex_tpl
                   (snd (collect ex_utils ex_retry)) fresh)) =
       [0, 0, 0, 0, 0, 0, 0, 0, 0, 0, 0, 0, 2, 3, 3, 3, 3, 3, 4, 4, 4, 5]"
proof -
  let ?on = "onEnd ex_cfg ex_utils ex_collab_bug_throws ex_env ex_tpl (snd (collect ex_utils ex_retry)) fresh"
  let ?off = "onEnd (ex_cfg\<lparr>createBug_enabled := False\<rparr>) ex_utils ex_collab_bug_throws ex_env ex_tpl
                   (snd (collect ex_utils ex_retry)) fresh"
  have t: "createBug (bugTracker ex_collab_bug_throws) (bugDetails ex_tpl ex_failure) = Inl (Error ''tracker down'')"
    by code_simp
  have g: "getBugTrackerProvider (bugTracker ex_collab_bug_throws) = Inr ()" by code_simp
  have r: "snd (snd ?on) = Inr ()" by code_simp
  have x: "exitCode (fst (snd ?on)) = Some 1" by code_simp
  note inst = channel_failure_absorbed [of ex_collab_bug_throws ex_tpl "[ex_failure]" fresh ex_cfg ex_utils
      ex_env "snd (collect ex_utils ex_retry)"]
  from inst have b: "createBugsForFailures ex_collab_bug_throws ex_tpl [ex_failure] fresh =
       ([GetBugTrackerProvider, CreateBug (bugDetails ex_tpl ex_failure)], fresh, Inr ())"
    by (simp add: g)
  have k: "map rank (fst ?on) = [0, 0, 0, 0, 0, 0, 0, 0, 0, 0, 0, 0, 1, 1, 2, 3, 3, 3, 3, 3, 4, 4, 4, 5]"
    by code_simp
  from inst have e: "fst (snd ?off) = fst (snd ?on) \<and> snd (snd ?off) = snd (snd ?on)"
    by simp
  from inst have "fst ?off = filter (\<lambda>a. rank a \<noteq> 1) (fst ?on)"
    by simp
  then have "map rank (fst ?off) = filter (\<lambda>n. n \<noteq> 1) (map rank (fst ?on))"
    by (simp add: filter_map comp_def)
  then have o: "map rank (fst ?off) = [0, 0, 0, 0, 0, 0, 0, 0, 0, 0, 0, 0, 2, 3, 3, 3, 3, 3, 4, 4, 4, 5]"
    by (simp add: k)
  show ?thesis using t b r x e k o by simp
qed

section \<open>The order of the channels\<close>

lemma ranked_try:
  assumes "ranked rk lo mid m" and "\<And>e. ranked rk mid hi (h e)" and "lo \<le> mid" and "mid \<le> hi"
  shows "ranked rk lo hi (try_catch m h)"
  unfolding ranked_def
proof (intro allI)
  fix w
  obtain tr w' r where mw: "m w = (tr, w', r)" by (cases "m w")
  have m1: "sorted (map rk tr)" "\<forall>a\<in>set tr. lo \<le> rk a \<and> rk a \<le> mid"
    using assms(1) mw unfolding ranked_def by (metis fst_conv)+
  show "sorted (map rk (fst (try_catch m h w))) \<and> (\<forall>a\<in>set (fst (try_catch m h w)). lo \<le> rk a \<and> rk a \<le> hi)"
  proof (cases r)
    case (Inr x)
    then show ?thesis using mw m1 assms(3,4) by (auto simp: try_catch_def)
  next
    case (Inl e)
    obtain tr' w'' r' where hw: "h e w' = (tr', w'', r')" by (cases "h e w'")
    have h1: "sorted (map rk tr')" "\<forall>a\<in>set tr'. mid \<le> rk a \<and> rk a \<le> hi"
      using assms(2) [of e] hw unfolding ranked_def by (metis fst_conv)+
    show ?thesis using mw Inl hw m1 h1 assms(3,4)
      by (auto simp: try_catch_def sorted_append) (meson order_trans)+
  qed
qed

lemma ranked_emits: "emits (\<lambda>a. rk a = k) m \<Longrightarrow> lo \<le> k \<Longrightarrow> k \<le> hi \<Longrightarrow> ranked rk lo hi m"
  by (rule ranked_weaken [OF ranked_const])

lemma ranked_silent [intro!]:
  "ranked rk lo hi (cache_has k)" "ranked rk lo hi (cache_get k)" "ranked rk lo hi (cache_set k v)"
  "ranked rk lo hi cache_new"
  by (simp_all add: ranked_def cache_has_def cache_get_def cache_set_def cache_new_def)

lemma emits_phase_generatePullRequest:
  "emits (\<lambda>a. phase a = 1) (generatePullRequest c env tpl failure fixResult)"
  by (rule emits_mono [OF emits_generatePullRequest]) simp

lemma emits_phase_generateFixSuggestion:
  "emits (\<lambda>a. phase a = 0) (generateFixSuggestion c tpl failure)"
  by (rule emits_mono [OF emits_generateFixSuggestion]) simp

lemma ranked_phase_fixOneFailure: "ranked phase 0 1 (fixOneFailure cfg c env tpl failure)"
proof (cases "falsy (f_testFile failure)")
  case True
  then show ?thesis by (simp add: fixOneFailure_def ranked_return)
next
  case False
  have tail: "ranked phase 0 1 (case result of
             Some fixResult \<Rightarrow>
               if generatePR cfg then generatePullRequest c env tpl failure fixResult
               else return_io ()
           | None \<Rightarrow> return_io ())" for result
    by (cases result)
       (auto intro: ranked_return ranked_emits [OF emits_phase_generatePullRequest])
  have read: "ranked phase 0 0 (if \<not> has
                    then bind_io (call (ReadFile (the (f_testFile failure)))
                                       (readFileSync (fileSystem c) (the (f_testFile failure)))) (\<lambda>source.
                         cache_set (the (f_testFile failure)) source)
                    else return_io ())" for has
    by (cases has) (auto intro!: ranked_const simp: ranked_return)
  have gen: "ranked phase 0 0 (generateFixSuggestion c tpl failure)"
    by (rule ranked_const [OF emits_phase_generateFixSuggestion])
  have body: "ranked phase 0 1
     (bind_io (cache_has (the (f_testFile failure))) (\<lambda>has.
           bind_io (if \<not> has
                    then bind_io (call (ReadFile (the (f_testFile failure)))
                                       (readFileSync (fileSystem c) (the (f_testFile failure)))) (\<lambda>source.
                         cache_set (the (f_testFile failure)) source)
                    else return_io ()) (\<lambda>_.
           bind_io (generateFixSuggestion c tpl failure) (\<lambda>result.
           case result of
             Some fixResult \<Rightarrow>
               if generatePR cfg then generatePullRequest c env tpl failure fixResult
               else return_io ()
           | None \<Rightarrow> return_io ()))))"
    by (intro ranked_bind [where mid = 0] ranked_silent read gen tail) simp_all
  show ?thesis
    unfolding fixOneFailure_def using False
    by (simp only: if_False) (intro ranked_try [where mid = 1] body ranked_return, simp_all)
qed

lemma ranked_onEnd: "ranked rank 0 5 (onEnd cfg u c env tpl st)"
proof (cases "p_testCount (processTestResults u (testRecords st)) = 0")
  case True
  have "ranked rank 0 5 (bind_io (call NoTestsFound (Inr ())) (\<lambda>_. exitWithError))"
    by (intro ranked_bind [where mid = 0] ranked_const ranked_exit emits_call) simp_all
  then show ?thesis using True by (simp add: onEnd_def)
next
  case False
  let ?fl = "p_failures (processTestResults u (testRecords st))"
  let ?s = "summary_of cfg u env st"
  have r6: "ranked rank 5 5 (if hasErrors u st then exitWithError else exitWithSuccess)"
    by (simp add: ranked_exit)
  have r5: "ranked rank 5 5 (bind_io (saveLastRunStatus cfg c tpl st (?fl \<noteq> []))
       (\<lambda>_. if hasErrors u st then exitWithError else exitWithSuccess))"
    by (intro ranked_bind [where mid = 5] ranked_const emits_saveLastRun r6) simp_all
  have r4: "ranked rank 4 5 (bind_io (mailStage cfg c env tpl ?s ?fl) (\<lambda>_.
       bind_io (saveLastRunStatus cfg c tpl st (?fl \<noteq> []))
       (\<lambda>_. if hasErrors u st then exitWithError else exitWithSuccess)))"
    by (intro ranked_bind [where mid = 4] ranked_const emits_mailStage ranked_weaken [OF r5]) simp_all
  have r3: "ranked rank 3 5 (bind_io (dbStage cfg c env ?s (allTestCases st) ?fl) (\<lambda>_.
       bind_io (mailStage cfg c env tpl ?s ?fl) (\<lambda>_.
       bind_io (saveLastRunStatus cfg c tpl st (?fl \<noteq> []))
       (\<lambda>_. if hasErrors u st then exitWithError else exitWithSuccess))))"
    by (intro ranked_bind [where mid = 3] ranked_const emits_dbStage ranked_weaken [OF r4]) simp_all
  have r2: "ranked rank 2 5 (bind_io (call (WriteSummary ?s (allTestCases st))
                         (writeSummary (fileSystem c) ?s (allTestCases st))) (\<lambda>_.
       bind_io (dbStage cfg c env ?s (allTestCases st) ?fl) (\<lambda>_.
       bind_io (mailStage cfg c env tpl ?s ?fl) (\<lambda>_.
       bind_io (saveLastRunStatus cfg c tpl st (?fl \<noteq> []))
       (\<lambda>_. if hasErrors u st then exitWithError else exitWithSuccess)))))"
    by (intro ranked_bind [where mid = 2] ranked_const emits_call ranked_weaken [OF r3]) simp_all
  have r1: "ranked rank 1 5 (bind_io (bugStage cfg c tpl ?fl) (\<lambda>_.
       bind_io (call (WriteSummary ?s (allTestCases st))
                         (writeSummary (fileSystem c) ?s (allTestCases st))) (\<lambda>_.
       bind_io (dbStage cfg c env ?s (allTestCases st) ?fl) (\<lambda>_.
       bind_io (mailStage cfg c env tpl ?s ?fl) (\<lambda>_.
       bind_io (saveLastRunStatus cfg c tpl st (?fl \<noteq> []))
       (\<lambda>_. if hasErrors u st then exitWithError else exitWithSuccess))))))"
    by (intro ranked_bind [where mid = 1] ranked_const emits_bugStage ranked_weaken [OF r2]) simp_all
  have r0: "ranked rank 0 5 (bind_io (fixStage cfg c env tpl ?fl) (\<lambda>_.
       bind_io (bugStage cfg c tpl ?fl) (\<lambda>_.
       bind_io (call (WriteSummary ?s (allTestCases st))
                         (writeSummary (fileSystem c) ?s (allTestCases st))) (\<lambda>_.
       bind_io (dbStage cfg c env ?s (allTestCases st) ?fl) (\<lambda>_.
       bind_io (mailStage cfg c env tpl ?s ?fl) (\<lambda>_.
       bind_io (saveLastRunStatus cfg c tpl st (?fl \<noteq> []))
       (\<lambda>_. if hasErrors u st then exitWithError else exitWithSuccess)))))))"
    by (intro ranked_bind [where mid = 0] ranked_const emits_fixStage ranked_weaken [OF r1]) simp_all
  show ?thesis using False r0 by (simp add: onEnd_def Let_def)
qed

lemma loop_segments:
  "fst (for_each failures (fixOneFailure cfg c env tpl) w) = concat (fix_segments cfg c env tpl failures w)"
proof (induction failures arbitrary: w)
  case Nil
  show ?case by (simp add: return_io_def)
next
  case (Cons f failures)
  from safe_unit [OF safe_fixOneFailure, of cfg c env tpl f w]
  obtain tr w' where one: "fixOneFailure cfg c env tpl f w = (tr, w', Inr ())" by blast
  show ?case using Cons.IH [of w'] one by (auto simp: bind_io_def split: prod.splits)
qed

lemma segments_nested:
  "list_all2 (\<lambda>f seg. sorted (map phase seg) \<and> list_all (branch_ok (branchName env f)) seg)
     failures (fix_segments cfg c env tpl failures w)"
proof (induction failures arbitrary: w)
  case Nil
  show ?case by simp
next
  case (Cons f failures)
  obtain tr w' r where one: "fixOneFailure cfg c env tpl f w = (tr, w', r)"
    by (cases "fixOneFailure cfg c env tpl f w")
  have s: "sorted (map phase tr)"
    using ranked_phase_fixOneFailure [of cfg c env tpl f] one unfolding ranked_def by (metis fst_conv)
  have b: "list_all (branch_ok (branchName env f)) tr"
    using emits_fixOneFailure [of env f cfg c tpl] one unfolding emits_def list_all_iff by (metis fst_conv)
  show ?case using Cons.IH [of w'] one s b by simp
qed

lemma emits_all: "emits P m \<Longrightarrow> list_all P (fst (m w))"
  by (simp add: emits_def list_all_iff)

text \<open>
  Claim C7. The calls that \<open>onEnd\<close> makes are in the order of the stages: those of the
  fix channel with its pull requests, then those of the bug channel, then the writing of
  the summary, then those of the database channel, then those of the notification channel,
  then the last-run status; no call of an earlier stage follows a call of a later one.
  With a positive test count and the summary written, the calls of the run are the calls
  of the fix stage, of the bug stage, the summary, and the calls of the database stage, of
  the notification stage and of the last-run status, one complete stage after the other.
  Inside the fix channel the calls are those of the turns of the loop, one turn for each
  failure in the order of the list; in each turn the calls of the pull-request automation
  come after the calls that generate the fix, and a branch created in the turn of a
  failure is the branch of that failure.
\<close>

theorem channels_in_fixed_order:
  "sorted (map rank (fst (onEnd cfg u c env tpl st w)))
   \<and> (p_testCount (processTestResults u (testRecords st)) \<noteq> 0
        \<and> writeSummary (fileSystem c) (summary_of cfg u env st) (allTestCases st) = Inr ()
      \<longrightarrow> fst (onEnd cfg u c env tpl st w) =
            fst (fixStage cfg c env tpl (p_failures (processTestResults u (testRecords st))) w)
            @ fst (bugStage cfg c tpl (p_failures (processTestResults u (testRecords st))) w)
            @ [WriteSummary (summary_of cfg u env st) (allTestCases st)]
            @ fst (dbStage cfg c env (summary_of cfg u env st) (allTestCases st)
                     (p_failures (processTestResults u (testRecords st))) w)
            @ fst (mailStage cfg c env tpl (summary_of cfg u env st)
                     (p_failures (processTestResults u (testRecords st))) w)
            @ fst (saveLastRunStatus cfg c tpl st (p_failures (processTestResults u (testRecords st)) \<noteq> []) w))
   \<and> list_all (\<lambda>a. rank a = 0) (fst (fixStage cfg c env tpl failures w))
   \<and> list_all (\<lambda>a. rank a = 1) (fst (bugStage cfg c tpl failures w))
   \<and> list_all (\<lambda>a. rank a = 3) (fst (dbStage cfg c env summary cases failures w))
   \<and> list_all (\<lambda>a. rank a = 4) (fst (mailStage cfg c env tpl summary failures w))
   \<and> fst (generateFixSuggestions cfg c env tpl failures w) =
       concat (fix_segments cfg c env tpl failures (w\<lparr>sourceCodeCache := []\<rparr>))
   \<and> list_all2 (\<lambda>f seg. sorted (map phase seg) \<and> list_all (branch_ok (branchName env f)) seg)
       failures (fix_segments cfg c env tpl failures (w\<lparr>sourceCodeCache := []\<rparr>))"
proof (intro conjI impI)
  show "sorted (map rank (fst (onEnd cfg u c env tpl st w)))"
    using ranked_onEnd [of cfg u c env tpl st] by (simp add: ranked_def)
next
  assume h: "p_testCount (processTestResults u (testRecords st)) \<noteq> 0
        \<and> writeSummary (fileSystem c) (summary_of cfg u env st) (allTestCases st) = Inr ()"
  let ?fl = "p_failures (processTestResults u (testRecords st))"
  let ?s = "summary_of cfg u env st"
  have b: "fst (bugStage cfg c tpl ?fl w) = fst (bugStage cfg c tpl ?fl fresh)"
    by (subst stage_bug) simp
  have d: "fst (dbStage cfg c env ?s (allTestCases st) ?fl w) = fst (dbStage cfg c env ?s (allTestCases st) ?fl fresh)"
    by (subst stage_db) simp
  have m: "fst (mailStage cfg c env tpl ?s ?fl w) = fst (mailStage cfg c env tpl ?s ?fl fresh)"
    by (subst stage_mail) simp
  have l: "fst (saveLastRunStatus cfg c tpl st (?fl \<noteq> []) w) = fst (saveLastRunStatus cfg c tpl st (?fl \<noteq> []) fresh)"
    by (subst stage_last) simp
  from h have n: "p_testCount (processTestResults u (testRecords st)) \<noteq> 0" by simp
  show "fst (onEnd cfg u c env tpl st w) =
            fst (fixStage cfg c env tpl ?fl w) @ fst (bugStage cfg c tpl ?fl w)
            @ [WriteSummary ?s (allTestCases st)]
            @ fst (dbStage cfg c env ?s (allTestCases st) ?fl w)
            @ fst (mailStage cfg c env tpl ?s ?fl w)
            @ fst (saveLastRunStatus cfg c tpl st (?fl \<noteq> []) w)"
    unfolding onEnd_nonzero [OF n] b d m l using h by (simp add: Let_def)
next
  show "list_all (\<lambda>a. rank a = 0) (fst (fixStage cfg c env tpl failures w))"
    by (rule emits_all [OF emits_fixStage])
  show "list_all (\<lambda>a. rank a = 1) (fst (bugStage cfg c tpl failures w))"
    by (rule emits_all [OF emits_bugStage])
  show "list_all (\<lambda>a. rank a = 3) (fst (dbStage cfg c env summary cases failures w))"
    by (rule emits_all [OF emits_dbStage])
  show "list_all (\<lambda>a. rank a = 4) (fst (mailStage cfg c env tpl summary failures w))"
    by (rule emits_all [OF emits_mailStage])
  show "fst (generateFixSuggestions cfg c env tpl failures w) =
       concat (fix_segments cfg c env tpl failures (w\<lparr>sourceCodeCache := []\<rparr>))"
    by (simp add: generateFixSuggestions_def bind_io_def cache_new_def loop_segments [symmetric]
        split: prod.splits)
  show "list_all2 (\<lambda>f seg. sorted (map phase seg) \<and> list_all (branch_ok (branchName env f)) seg)
       failures (fix_segments cfg c env tpl failures (w\<lparr>sourceCodeCache := []\<rparr>))"
    by (rule segments_nested)
qed

text \<open>
  The run \<open>ex_retry\<close> with every channel enabled: twelve calls of the fix channel, of
  which the last five are the pull request, two of the bug channel, the summary, four of
  the database channel, three of the notification channel and the last-run status.
\<close>

theorem channels_in_fixed_order_witness:
  "p_testCount (processTestResults ex_utils (testRecords (snd (collect ex_utils ex_retry)))) \<noteq> 0
   \<and> writeSummary (fileSystem ex_collab) (summary_of ex_cfg ex_utils ex_env (snd (collect ex_utils ex_retry)))
        (allTestCases (snd (collect ex_utils ex_retry))) = Inr ()
   \<and> map rank (fst (onEnd ex_cfg ex_utils ex_collab ex_env ex_tpl (snd (collect ex_utils ex_retry)) fresh)) =
       [0, 0, 0, 0, 0, 0, 0, 0, 0, 0, 0, 0, 1, 1, 2, 3, 3, 3, 3, 3, 4, 4, 4, 5]
   \<and> map phase (fst (fixStage ex_cfg ex_collab ex_env ex_tpl
        (p_failures (processTestResults ex_utils (testRecords (snd (collect ex_utils ex_retry))))) fresh)) =
       [0, 0, 0, 0, 0, 0, 0, 1, 1, 1, 1, 1]
   \<and> sorted (map rank (fst (onEnd ex_cfg ex_utils ex_collab ex_env ex_tpl (snd (collect ex_utils ex_retry)) fresh)))"
proof -
  let ?st = "snd (collect ex_utils ex_retry)"
  let ?fl = "p_failures (processTestResults ex_utils (testRecords ?st))"
  let ?s = "summary_of ex_cfg ex_utils ex_env ?st"
  have n: "p_testCount (processTestResults ex_utils (testRecords ?st)) \<noteq> 0" by code_simp
  have ws: "writeSummary (fileSystem ex_collab) ?s (allTestCases ?st) = Inr ()" by code_simp
  have f: "map rank (fst (fixStage ex_cfg ex_collab ex_env ex_tpl ?fl fresh)) = [0, 0, 0, 0, 0, 0, 0, 0, 0, 0, 0, 0]"
    by code_simp
  have p: "map phase (fst (fixStage ex_cfg ex_collab ex_env ex_tpl ?fl fresh)) = [0, 0, 0, 0, 0, 0, 0, 1, 1, 1, 1, 1]"
    by code_simp
  have b: "map rank (fst (bugStage ex_cfg ex_collab ex_tpl ?fl fresh)) = [1, 1]" by code_simp
  have d: "map rank (fst (dbStage ex_cfg ex_collab ex_env ?s (allTestCases ?st) ?fl fresh)) = [3, 3, 3, 3, 3]"
    by code_simp
  have m: "map rank (fst (mailStage ex_cfg ex_collab ex_env ex_tpl ?s ?fl fresh)) = [4, 4, 4]" by code_simp
  have l: "map rank (fst (saveLastRunStatus ex_cfg ex_collab ex_tpl ?st (?fl \<noteq> []) fresh)) = [5]" by code_simp
  note inst = channels_in_fixed_order [of ex_cfg ex_utils ex_collab ex_env ex_tpl ?st fresh]
  from inst n ws have "fst (onEnd ex_cfg ex_utils ex_collab ex_env ex_tpl ?st fresh) =
            fst (fixStage ex_cfg ex_collab ex_env ex_tpl ?fl fresh)
            @ fst (bugStage ex_cfg ex_collab ex_tpl ?fl fresh)
            @ [WriteSummary ?s (allTestCases ?st)]
            @ fst (dbStage ex_cfg ex_collab ex_env ?s (allTestCases ?st) ?fl fresh)
            @ fst (mailStage ex_cfg ex_collab ex_env ex_tpl ?s ?fl fresh)
            @ fst (saveLastRunStatus ex_cfg ex_collab ex_tpl ?st (?fl \<noteq> []) fresh)"
    by blast
  then have r: "map rank (fst (onEnd ex_cfg ex_utils ex_collab ex_env ex_tpl ?st fresh)) =
       [0, 0, 0, 0, 0, 0, 0, 0, 0, 0, 0, 0, 1, 1, 2, 3, 3, 3, 3, 3, 4, 4, 4, 5]"
    by (simp add: f b d m l)
  from inst have "sorted (map rank (fst (onEnd ex_cfg ex_utils ex_collab ex_env ex_tpl ?st fresh)))"
    by blast
  then show ?thesis using n ws r p by simp
qed

end
